theory Spec2Isabelle
  imports Complex_Main
begin

section \<open>Python values and exceptions\<close>

text \<open>
  The client exchanges JSON documents with the cloud. A decoded document is a value of
  \<open>json\<close>: \<open>JNull\<close> is Python's \<open>None\<close>, an object is the list of its items (a Python
  dict: looked up with \<open>map_of\<close>, the first item of a key is the item of the dict).
  JSON numbers are finite. Python floats are modelled by exact rationals together with
  the two infinities and NaN (\<open>pyfloat\<close>): rounding to the nearest double is not
  modelled, so a decimal such as 1.2 stands for the double nearest to it, and a quotient,
  a sum or a converted integer stands for its rounded value.
\<close>

datatype json =
    JNull
  | JBool bool
  | JInt int
  | JFloat rat
  | JStr string
  | JList "json list"
  | JObj "(string \<times> json) list"

datatype pyfloat = Fin rat | PInf | NInf | NaN

text \<open>
  The exception classes the modelled code raises or lets through. All of them but
  \<open>CancelledError\<close> derive from Python's \<open>Exception\<close>; \<open>CancelledError\<close> derives from
  \<open>BaseException\<close> only. \<open>SigenTokenExpiredError\<close> is a subclass of \<open>SigenAuthError\<close>.
  \<open>ClientError\<close> stands for a transport failure of the HTTP library, \<open>HandlerError\<close>
  for an exception raised by a callback registered by the caller.
\<close>

datatype exc =
    AttributeError
  | TypeError
  | ValueError
  | KeyError string
  | OverflowError
  | RuntimeError string
  | SigenAuthError
  | SigenTokenExpiredError
  | ClientError
  | HandlerError
  | MqttError
  | CancelledError

text \<open>Sequencing of calls that may raise: the first exception ends the sequence.\<close>

definition and_then :: "exc + 'a \<Rightarrow> ('a \<Rightarrow> exc + 'b) \<Rightarrow> exc + 'b" where
  "and_then r f = (case r of Inl e \<Rightarrow> Inl e | Inr x \<Rightarrow> f x)"

subsection \<open>The builtin \<open>float\<close>\<close>

text \<open>Unary minus and division by a positive finite constant on floats.\<close>

fun fneg :: "pyfloat \<Rightarrow> pyfloat" where
  "fneg (Fin r) = Fin (- r)"
| "fneg PInf = NInf"
| "fneg NInf = PInf"
| "fneg NaN = NaN"

fun fdiv :: "pyfloat \<Rightarrow> rat \<Rightarrow> pyfloat" where
  "fdiv (Fin r) d = Fin (r / d)"
| "fdiv PInf d = PInf"
| "fdiv NInf d = NInf"
| "fdiv NaN d = NaN"

text \<open>
  \<open>float(s)\<close> on a string: surrounding whitespace is dropped, then an optional sign is
  followed by \<open>inf\<close>, \<open>infinity\<close> or \<open>nan\<close> in any case, or by a decimal number
  \<open>[digits].digits | digits[.]\<close> with an optional exponent; digits may be grouped by
  single underscores. The strings are ASCII: the whitespace dropped is the space, the tab,
  the line feed, the vertical tab, the form feed and the carriage return. A decimal that
  rounds to \<open>2 ^ 1024\<close> or more is an infinity and one that rounds to zero is 0.0 (the
  sign of a zero is not modelled); in between, the value is the decimal itself where
  Python takes the double nearest to it.
\<close>

definition is_space :: "char \<Rightarrow> bool" where
  "is_space c = (c \<in> set [CHR 0x09, CHR 0x0A, CHR 0x0B, CHR 0x0C, CHR 0x0D, CHR 0x20])"

definition strip :: "string \<Rightarrow> string" where
  "strip s = rev (dropWhile is_space (rev (dropWhile is_space s)))"

definition is_digit :: "char \<Rightarrow> bool" where
  "is_digit c = (c \<in> set ''0123456789'')"

definition digit_val :: "char \<Rightarrow> nat" where
  "digit_val c = length (takeWhile (\<lambda>d. d \<noteq> c) ''0123456789'')"

definition nat_of_digits :: "string \<Rightarrow> nat" where
  "nat_of_digits ds = foldl (\<lambda>a c. 10 * a + digit_val c) 0 ds"

definition lower :: "char \<Rightarrow> char" where
  "lower c = (case map_of (zip ''ABCDEFGHIJKLMNOPQRSTUVWXYZ'' ''abcdefghijklmnopqrstuvwxyz'') c of
                None \<Rightarrow> c | Some l \<Rightarrow> l)"

text \<open>
  \<open>scan_digits\<close> reads digits, passing an underscore only when a digit follows it, and
  returns the digits read and the rest. \<open>digitpart\<close> asks for a digit first.
\<close>

fun scan_digits :: "string \<Rightarrow> string \<times> string" where
  "scan_digits [] = ([], [])"
| "scan_digits (c # cs) =
     (if is_digit c then (case scan_digits cs of (ds, r) \<Rightarrow> (c # ds, r))
      else if c = CHR ''_'' \<and> cs \<noteq> [] \<and> is_digit (hd cs) then scan_digits cs
      else ([], c # cs))"

definition digitpart :: "string \<Rightarrow> string \<times> string" where
  "digitpart s = (if s \<noteq> [] \<and> is_digit (hd s) then scan_digits s else ([], s))"

definition split_sign :: "string \<Rightarrow> bool \<times> string" where
  "split_sign s =
     (case s of
        c # cs \<Rightarrow> if c = CHR ''-'' then (True, cs) else if c = CHR ''+'' then (False, cs)
                  else (False, s)
      | [] \<Rightarrow> (False, s))"

text \<open>The exponent part: empty, or \<open>e\<close>/\<open>E\<close>, an optional sign and digits up to the end.\<close>

definition parse_exponent :: "string \<Rightarrow> int option" where
  "parse_exponent s =
     (case s of
        [] \<Rightarrow> Some 0
      | c # cs \<Rightarrow>
          if c = CHR ''e'' \<or> c = CHR ''E'' then
            (case split_sign cs of
               (neg, ds) \<Rightarrow>
                 (case digitpart ds of
                    (es, r) \<Rightarrow>
                      if es \<noteq> [] \<and> r = [] then
                        Some (if neg then - int (nat_of_digits es) else int (nat_of_digits es))
                      else None))
          else None)"

definition scale10 :: "rat \<Rightarrow> int \<Rightarrow> rat" where
  "scale10 m e = (if 0 \<le> e then m * 10 ^ nat e else m / 10 ^ nat (- e))"

definition parse_number :: "string \<Rightarrow> rat option" where
  "parse_number s =
     (case digitpart s of
        (ip, r1) \<Rightarrow>
          (case (if r1 \<noteq> [] \<and> hd r1 = CHR ''.'' then digitpart (tl r1) else ([], r1)) of
             (fp, r2) \<Rightarrow>
               if ip = [] \<and> fp = [] then None
               else
                 (case parse_exponent r2 of
                    None \<Rightarrow> None
                  | Some e \<Rightarrow>
                      Some (scale10 (of_nat (nat_of_digits ip)
                                     + of_nat (nat_of_digits fp) / 10 ^ length fp) e))))"

definition float_of_decimal :: "rat \<Rightarrow> pyfloat" where
  "float_of_decimal r =
     (if 2 ^ 1024 - 2 ^ 970 \<le> \<bar>r\<bar> then (if r < 0 then NInf else PInf)
      else if \<bar>r\<bar> \<le> 1 / 2 ^ 1075 then Fin 0
      else Fin r)"

definition parse_float :: "string \<Rightarrow> pyfloat option" where
  "parse_float s =
     (case split_sign (strip s) of
        (neg, body) \<Rightarrow>
          if map lower body = ''inf'' \<or> map lower body = ''infinity'' then
            Some (if neg then NInf else PInf)
          else if map lower body = ''nan'' then Some NaN
          else
            (case parse_number body of
               None \<Rightarrow> None
             | Some r \<Rightarrow> Some (float_of_decimal (if neg then - r else r))))"

text \<open>
  \<open>float(v)\<close> on a decoded JSON value. An integer that rounds to \<open>2 ^ 1024\<close> or more
  raises \<open>OverflowError\<close>; a string outside the grammar raises \<open>ValueError\<close>; \<open>None\<close>, a
  list and a dict raise \<open>TypeError\<close>; \<open>True\<close> and \<open>False\<close> are the integers 1 and 0.
\<close>

definition int_overflows :: "int \<Rightarrow> bool" where
  "int_overflows n = (2 ^ 1024 - 2 ^ 970 \<le> \<bar>n\<bar>)"

fun py_float :: "json \<Rightarrow> exc + pyfloat" where
  "py_float JNull = Inl TypeError"
| "py_float (JBool b) = Inr (Fin (if b then 1 else 0))"
| "py_float (JInt n) = (if int_overflows n then Inl OverflowError else Inr (Fin (of_int n)))"
| "py_float (JFloat r) = Inr (Fin r)"
| "py_float (JStr s) = (case parse_float s of None \<Rightarrow> Inl ValueError | Some f \<Rightarrow> Inr f)"
| "py_float (JList xs) = Inl TypeError"
| "py_float (JObj kvs) = Inl TypeError"

section \<open>Telemetry decoder (\<open>mqtt.py\<close>, \<open>TelemetryData\<close>)\<close>

record telemetry_data =
  timestamp :: json
  system_id :: json
  device_type :: json
  pv_power_kw :: pyfloat
  battery_power_kw :: pyfloat
  soc_percent :: pyfloat
  grid_power_kw :: pyfloat
  load_power_kw :: pyfloat
  raw :: "(string \<times> json) list"

text \<open>\<open>d.get(key, default)\<close> on a dict.\<close>

definition dict_get :: "(string \<times> json) list \<Rightarrow> string \<Rightarrow> json \<Rightarrow> json" where
  "dict_get d key dflt = (case map_of d key of None \<Rightarrow> dflt | Some v \<Rightarrow> v)"

text \<open>
  The local function \<open>_float\<close> of \<open>from_mqtt_payload\<close>, with its default 0.0:
  \<open>values.get(key)\<close> raises \<open>AttributeError\<close> when \<open>values\<close> is not a dict; \<open>None\<close> gives
  the default; \<open>ValueError\<close> and \<open>TypeError\<close> of \<open>float\<close> give the default; any other
  exception of \<open>float\<close> leaves the function.
\<close>

definition float_or_default :: "json \<Rightarrow> string \<Rightarrow> exc + pyfloat" where
  "float_or_default values key =
     (case values of
        JObj kvs \<Rightarrow>
          (case dict_get kvs key JNull of
             JNull \<Rightarrow> Inr (Fin 0)
           | v \<Rightarrow>
               (case py_float v of
                  Inr f \<Rightarrow> Inr f
                | Inl e \<Rightarrow> if e = ValueError \<or> e = TypeError then Inr (Fin 0) else Inl e))
      | _ \<Rightarrow> Inl AttributeError)"

definition from_mqtt_payload :: "(string \<times> json) list \<Rightarrow> exc + telemetry_data" where
  "from_mqtt_payload data =
     (let values = dict_get data ''value'' (JObj []) in
      and_then (float_or_default values ''storageChargeDischargePowerW'') (\<lambda>sigen_battery_w.
      and_then (float_or_default values ''pvPowerW'') (\<lambda>pv.
      and_then (float_or_default values ''storageSOC%'') (\<lambda>soc.
      and_then (float_or_default values ''gridActivePowerW'') (\<lambda>grid.
      and_then (float_or_default values ''loadActivePowerW'') (\<lambda>load.
        Inr \<lparr> timestamp = dict_get data ''statisticsTime'' (JStr ''''),
              system_id = dict_get data ''systemId'' (JStr ''''),
              device_type = dict_get data ''deviceType'' (JStr ''''),
              pv_power_kw = fdiv pv 1000,
              battery_power_kw = fdiv (fneg sigen_battery_w) 1000,
              soc_percent = soc,
              grid_power_kw = fdiv grid 1000,
              load_power_kw = fdiv load 1000,
              raw = (case values of JObj kvs \<Rightarrow> kvs | _ \<Rightarrow> []) \<rparr>))))))"

text \<open>
  The decoder as the specification words it: a numeric field that is absent or that
  \<open>float\<close> does not parse counts as 0.0. \<open>fits_float\<close> holds of a field unless it is an
  integer too large for a float.
\<close>

definition field_or_zero :: "(string \<times> json) list \<Rightarrow> string \<Rightarrow> pyfloat" where
  "field_or_zero kvs key =
     (case map_of kvs key of
        None \<Rightarrow> Fin 0
      | Some v \<Rightarrow> (case py_float v of Inr f \<Rightarrow> f | Inl e \<Rightarrow> Fin 0))"

definition numeric_keys :: "string list" where
  "numeric_keys = [''storageChargeDischargePowerW'', ''pvPowerW'', ''storageSOC%'',
                   ''gridActivePowerW'', ''loadActivePowerW'']"

definition fits_float :: "(string \<times> json) list \<Rightarrow> string \<Rightarrow> bool" where
  "fits_float kvs key =
     (case map_of kvs key of Some (JInt n) \<Rightarrow> \<not> int_overflows n | _ \<Rightarrow> True)"

section \<open>Operations on decoded JSON\<close>

text \<open>Truth value of a decoded JSON value, as \<open>not v\<close> and \<open>v and ...\<close> test it.\<close>

fun truthy :: "json \<Rightarrow> bool" where
  "truthy JNull = False"
| "truthy (JBool b) = b"
| "truthy (JInt n) = (n \<noteq> 0)"
| "truthy (JFloat r) = (r \<noteq> 0)"
| "truthy (JStr s) = (s \<noteq> [])"
| "truthy (JList xs) = (xs \<noteq> [])"
| "truthy (JObj kvs) = (kvs \<noteq> [])"

fun is_infix :: "string \<Rightarrow> string \<Rightarrow> bool" where
  "is_infix xs [] = (xs = [])"
| "is_infix xs (y # ys) = (take (length xs) (y # ys) = xs \<or> is_infix xs ys)"

text \<open>
  \<open>key in v\<close> for a string key: membership of the key in a dict, substring test on a
  string, membership in a list; any other value is not iterable.
\<close>

fun py_in :: "string \<Rightarrow> json \<Rightarrow> exc + bool" where
  "py_in key (JObj kvs) = Inr (map_of kvs key \<noteq> None)"
| "py_in key (JStr s) = Inr (is_infix key s)"
| "py_in key (JList xs) = Inr (JStr key \<in> set xs)"
| "py_in key v = Inl TypeError"

text \<open>\<open>v[key]\<close> for a string key: only a dict can be indexed by a string.\<close>

fun py_getitem :: "json \<Rightarrow> string \<Rightarrow> exc + json" where
  "py_getitem (JObj kvs) key =
     (case map_of kvs key of None \<Rightarrow> Inl (KeyError key) | Some v \<Rightarrow> Inr v)"
| "py_getitem v key = Inl TypeError"

text \<open>\<open>v.get(key, dflt)\<close>: only a dict has the method.\<close>

fun py_get :: "json \<Rightarrow> string \<Rightarrow> json \<Rightarrow> exc + json" where
  "py_get (JObj kvs) key dflt = Inr (dict_get kvs key dflt)"
| "py_get v key dflt = Inl AttributeError"

text \<open>\<open>v == n\<close> for an integer \<open>n\<close>: numbers compare by value, a bool as 0 or 1.\<close>

fun py_eq_int :: "json \<Rightarrow> int \<Rightarrow> bool" where
  "py_eq_int (JInt m) n = (m = n)"
| "py_eq_int (JFloat r) n = (r = of_int n)"
| "py_eq_int (JBool b) n = ((if b then 1 else 0) = n)"
| "py_eq_int v n = False"

text \<open>\<open>t + v\<close> for a float \<open>t\<close>: a number is added, anything else is a \<open>TypeError\<close>.\<close>

fun float_add :: "rat \<Rightarrow> json \<Rightarrow> exc + rat" where
  "float_add t (JInt n) = (if int_overflows n then Inl OverflowError else Inr (t + of_int n))"
| "float_add t (JFloat r) = Inr (t + r)"
| "float_add t (JBool b) = Inr (t + (if b then 1 else 0))"
| "float_add t v = Inl TypeError"

text \<open>\<open>str(n)\<close> for an integer.\<close>

definition digit_char :: "nat \<Rightarrow> char" where
  "digit_char d = ''0123456789'' ! (d mod 10)"

fun digits_of_nat :: "nat \<Rightarrow> string" where
  "digits_of_nat n =
     (if n < 10 then [digit_char n] else digits_of_nat (n div 10) @ [digit_char (n mod 10)])"

definition str_of_int :: "int \<Rightarrow> string" where
  "str_of_int n = (if n < 0 then CHR ''-'' # digits_of_nat (nat (- n)) else digits_of_nat (nat n))"

text \<open>
  \<open>str(v)\<close>, as an f-string inserts a value. The text of a float, a list or a dict is
  not modelled: it is whatever the parameter \<open>repr\<close> gives.
\<close>

fun py_str :: "(json \<Rightarrow> string) \<Rightarrow> json \<Rightarrow> string" where
  "py_str repr JNull = ''None''"
| "py_str repr (JBool b) = (if b then ''True'' else ''False'')"
| "py_str repr (JInt n) = str_of_int n"
| "py_str repr (JStr s) = s"
| "py_str repr v = repr v"

section \<open>The world outside\<close>

text \<open>
  An HTTP exchange is recorded by its method and URL. The server's answer is a status and
  a body; \<open>body = None\<close> is a body that is not JSON, on which \<open>response.json()\<close> raises
  (modelled as \<open>ValueError\<close>). What the environment does during one token check is an
  \<open>auth_env\<close>: the reading of \<open>time.time()\<close> at the check, the answer to the request,
  should one be made (\<open>Inl\<close>: the request itself raises, a transport failure or a
  cancellation), the result of \<open>json.loads\<close> on the answer's \<open>data\<close> string, should it be a
  string (\<open>None\<close>: not JSON), and the reading of \<open>time.time()\<close> when the new expiry is
  computed.
\<close>

datatype http_call = HttpPost string | HttpGet string

record http_reply =
  status :: int
  body :: "json option"

record auth_env =
  clock :: rat
  reply :: "exc + http_reply"
  decoded :: "json option"
  clock_after :: rat

section \<open>Token manager (\<open>auth.py\<close>, \<open>TokenManager\<close>)\<close>

record token_manager =
  access_token :: json
  refresh_token :: json
  token_expiry :: "rat option"

definition new_token_manager :: token_manager where
  "new_token_manager = \<lparr> access_token = JNull, refresh_token = JNull, token_expiry = None \<rparr>"

definition headers :: "(json \<Rightarrow> string) \<Rightarrow> token_manager \<Rightarrow> (string \<times> string) list" where
  "headers repr tm =
     [(''Authorization'', ''Bearer '' @ py_str repr (access_token tm)),
      (''Content-Type'', ''application/json'')]"

text \<open>
  \<open>get_access_token\<close> and \<open>refresh_access_token\<close> treat the answer with the same
  statements, but for the exception class they raise. \<open>grant_fields_present\<close> is the
  negation of the test \<open>not response_data or "access_token" not in response_data or ...\<close>;
  \<open>install_grant\<close> is the three assignments in their order: an exception raised by one
  of them leaves the assignments before it in place.
\<close>

definition grant_fields_present :: "json \<Rightarrow> exc + bool" where
  "grant_fields_present response_data =
     (if \<not> truthy response_data then Inr False
      else and_then (py_in ''access_token'' response_data) (\<lambda>a.
           if \<not> a then Inr False
           else and_then (py_in ''refresh_token'' response_data) (\<lambda>r.
                if \<not> r then Inr False
                else py_in ''expires_in'' response_data)))"

definition install_grant :: "token_manager \<Rightarrow> json \<Rightarrow> rat \<Rightarrow> (exc + unit) \<times> token_manager" where
  "install_grant tm response_data now =
     (case py_getitem response_data ''access_token'' of
        Inl e \<Rightarrow> (Inl e, tm)
      | Inr a \<Rightarrow>
          (let tm1 = tm\<lparr>access_token := a\<rparr> in
           case py_getitem response_data ''refresh_token'' of
             Inl e \<Rightarrow> (Inl e, tm1)
           | Inr r \<Rightarrow>
               (let tm2 = tm1\<lparr>refresh_token := r\<rparr> in
                case py_getitem response_data ''expires_in'' of
                  Inl e \<Rightarrow> (Inl e, tm2)
                | Inr x \<Rightarrow>
                    (case float_add now x of
                       Inl e \<Rightarrow> (Inl e, tm2)
                     | Inr t \<Rightarrow> (Inr (), tm2\<lparr>token_expiry := Some t\<rparr>)))))"

definition token_response ::
  "exc \<Rightarrow> token_manager \<Rightarrow> http_reply \<Rightarrow> rat \<Rightarrow> (exc + unit) \<times> token_manager" where
  "token_response err tm r now =
     (case body r of
        None \<Rightarrow> (Inl ValueError, tm)
      | Some response_json \<Rightarrow>
          (case py_get response_json ''data'' JNull of
             Inl e \<Rightarrow> (Inl e, tm)
           | Inr response_data \<Rightarrow>
               (case grant_fields_present response_data of
                  Inl e \<Rightarrow> (Inl e, tm)
                | Inr ok \<Rightarrow>
                    if ok then install_grant tm response_data now else (Inl err, tm))))"

text \<open>
  Each operation returns the HTTP calls it made, its result (\<open>Inl\<close>: the exception it
  raises) and the token manager afterwards. The form data of the requests (user name,
  password, refresh token) is not modelled.
\<close>

definition get_access_token ::
  "string \<Rightarrow> token_manager \<Rightarrow> auth_env \<Rightarrow> http_call list \<times> (exc + unit) \<times> token_manager" where
  "get_access_token base_url tm env =
     ([HttpPost (base_url @ ''auth/oauth/token'')],
      (case reply env of
         Inl e \<Rightarrow> (Inl e, tm)
       | Inr r \<Rightarrow>
           if status r = 401 then (Inl SigenAuthError, tm)
           else if status r \<noteq> 200 then (Inl SigenAuthError, tm)
           else token_response SigenAuthError tm r (clock_after env)))"

definition refresh_access_token ::
  "string \<Rightarrow> token_manager \<Rightarrow> auth_env \<Rightarrow> http_call list \<times> (exc + unit) \<times> token_manager" where
  "refresh_access_token base_url tm env =
     ([HttpPost (base_url @ ''auth/oauth/token'')],
      (case reply env of
         Inl e \<Rightarrow> (Inl e, tm)
       | Inr r \<Rightarrow>
           if status r \<noteq> 200 then (Inl SigenTokenExpiredError, tm)
           else token_response SigenTokenExpiredError tm r (clock_after env)))"

definition ensure_valid_token ::
  "string \<Rightarrow> token_manager \<Rightarrow> auth_env \<Rightarrow> http_call list \<times> (exc + unit) \<times> token_manager" where
  "ensure_valid_token base_url tm env =
     (case token_expiry tm of
        None \<Rightarrow> ([], Inr (), tm)
      | Some expiry \<Rightarrow>
          if clock env \<ge> expiry then refresh_access_token base_url tm env
          else ([], Inr (), tm))"

section \<open>Northbound client (\<open>northbound.py\<close>, \<open>NorthboundClient\<close>)\<close>

text \<open>
  The fields of the client that the token logic reads and writes. \<open>has_app_key\<close> is
  \<open>hasattr(self, "_app_key")\<close>: true of a client made by \<open>from_app_key\<close>, false of one
  made by the constructor.
\<close>

record northbound_client =
  nb_base_url :: string
  nb_access_token :: json
  nb_token_expiry :: "rat option"
  has_app_key :: bool

text \<open>
  \<open>json.loads\<close> on the \<open>data\<close> string of the answer: the default string \<open>{}\<close> is the empty
  object, any other string decodes to what the environment says.
\<close>

definition json_loads :: "auth_env \<Rightarrow> string \<Rightarrow> exc + json" where
  "json_loads env s =
     (if s = ''{}'' then Inr (JObj [])
      else (case decoded env of None \<Rightarrow> Inl ValueError | Some v \<Rightarrow> Inr v))"

text \<open>
  \<open>login\<close> and \<open>login_with_key\<close> treat the answer with the same statements: the envelope
  code must equal 0, \<open>data\<close> is decoded a second time when it is a string, the token is
  stored, then the expiry (default lifetime 43199 seconds).
\<close>

definition login_response :: "northbound_client \<Rightarrow> auth_env \<Rightarrow> (exc + json) \<times> northbound_client" where
  "login_response nb env =
     (case reply env of
        Inl e \<Rightarrow> (Inl e, nb)
      | Inr r \<Rightarrow>
     (case body r of
        None \<Rightarrow> (Inl ValueError, nb)
      | Some b \<Rightarrow>
     (case py_get b ''code'' JNull of
        Inl e \<Rightarrow> (Inl e, nb)
      | Inr code \<Rightarrow>
          if \<not> py_eq_int code 0 then (Inl SigenAuthError, nb)
          else
     (case py_get b ''data'' (JStr ''{}'') of
        Inl e \<Rightarrow> (Inl e, nb)
      | Inr data_str \<Rightarrow>
     (case (case data_str of JStr s \<Rightarrow> json_loads env s | v \<Rightarrow> Inr v) of
        Inl e \<Rightarrow> (Inl e, nb)
      | Inr data \<Rightarrow>
     (case py_getitem data ''accessToken'' of
        Inl e \<Rightarrow> (Inl e, nb)
      | Inr tok \<Rightarrow>
          (let nb1 = nb\<lparr>nb_access_token := tok\<rparr> in
           case py_get data ''expiresIn'' (JInt 43199) of
             Inl e \<Rightarrow> (Inl e, nb1)
           | Inr x \<Rightarrow>
               (case float_add (clock_after env) x of
                  Inl e \<Rightarrow> (Inl e, nb1)
                | Inr t \<Rightarrow> (Inr tok, nb1\<lparr>nb_token_expiry := Some t\<rparr>)))))))))"

definition login ::
  "northbound_client \<Rightarrow> auth_env \<Rightarrow> http_call list \<times> (exc + json) \<times> northbound_client" where
  "login nb env = ([HttpPost (nb_base_url nb @ ''openapi/auth/login/password'')], login_response nb env)"

definition login_with_key ::
  "northbound_client \<Rightarrow> auth_env \<Rightarrow> http_call list \<times> (exc + json) \<times> northbound_client" where
  "login_with_key nb env =
     (if \<not> has_app_key nb then ([], Inl AttributeError, nb)
      else ([HttpPost (nb_base_url nb @ ''openapi/auth/login/key'')], login_response nb env))"

definition from_app_key ::
  "string \<Rightarrow> auth_env \<Rightarrow> http_call list \<times> (exc + northbound_client)" where
  "from_app_key base env =
     (case login_with_key \<lparr> nb_base_url = base, nb_access_token = JNull,
                             nb_token_expiry = None, has_app_key = True \<rparr> env of
        (calls, Inl e, inst) \<Rightarrow> (calls, Inl e)
      | (calls, Inr tok, inst) \<Rightarrow> (calls, Inr inst))"

text \<open>
  \<open>ensure_token\<close>: the test is \<open>not self.access_token or (self.token_expiry and
  time.time() >= self.token_expiry)\<close>; an expiry of 0.0 is false as \<open>None\<close> is.
\<close>

definition nb_ensure_token ::
  "northbound_client \<Rightarrow> auth_env \<Rightarrow> http_call list \<times> (exc + json) \<times> northbound_client" where
  "nb_ensure_token nb env =
     (if \<not> truthy (nb_access_token nb)
         \<or> (case nb_token_expiry nb of None \<Rightarrow> False | Some t \<Rightarrow> t \<noteq> 0 \<and> clock env \<ge> t)
      then
        (case (if has_app_key nb then login_with_key nb env else login nb env) of
           (calls, Inl e, nb') \<Rightarrow> (calls, Inl e, nb')
         | (calls, Inr tok, nb') \<Rightarrow> (calls, Inr (nb_access_token nb'), nb'))
      else ([], Inr (nb_access_token nb), nb))"

text \<open>
  The token store as the specification words its validity: the token is present and the
  expiry is absent or lies after \<open>now\<close>.
\<close>

definition store_valid :: "json \<Rightarrow> rat option \<Rightarrow> rat \<Rightarrow> bool" where
  "store_valid token expiry now =
     (token \<noteq> JNull \<and> (case expiry of None \<Rightarrow> True | Some t \<Rightarrow> now < t))"

section \<open>Operational modes (\<open>modes.py\<close>)\<close>

text \<open>
  The answer of \<open>mode/current\<close> and the cached mode lists, typed as the interface gives
  them: mode values and profile ids are integers, the \<open>value\<close> of a default working mode
  is a string. A list missing from the cache is \<open>None\<close>: indexing it raises \<open>KeyError\<close>.
\<close>

record mode_status =
  currentMode :: int
  currentProfileId :: int

record working_mode =
  mode_value :: string
  mode_label :: string

record profile_item =
  profileId :: int
  profile_name :: string

record cached_modes =
  defaultWorkingModes :: "working_mode list option"
  energyProfileItems :: "profile_item list option"

text \<open>The two \<open>for\<close> loops, each returning at the first match.\<close>

fun match_value :: "string \<Rightarrow> working_mode list \<Rightarrow> string option" where
  "match_value v [] = None"
| "match_value v (m # ms) = (if mode_value m = v then Some (mode_label m) else match_value v ms)"

fun match_profile :: "int \<Rightarrow> profile_item list \<Rightarrow> string option" where
  "match_profile p [] = None"
| "match_profile p (m # ms) = (if profileId m = p then Some (profile_name m) else match_profile p ms)"

definition mode_label_of :: "mode_status \<Rightarrow> cached_modes \<Rightarrow> exc + string" where
  "mode_label_of response_data cached =
     (if currentMode response_data \<noteq> 9 then
        (case defaultWorkingModes cached of
           None \<Rightarrow> Inl (KeyError ''defaultWorkingModes'')
         | Some modes \<Rightarrow>
             (case match_value (str_of_int (currentMode response_data)) modes of
                Some l \<Rightarrow> Inr l
              | None \<Rightarrow> Inr ''Unknown mode''))
      else
        (case energyProfileItems cached of
           None \<Rightarrow> Inl (KeyError ''energyProfileItems'')
         | Some items \<Rightarrow>
             (case match_profile (currentProfileId response_data) items of
                Some l \<Rightarrow> Inr l
              | None \<Rightarrow> Inr ''Unknown mode'')))"

text \<open>
  \<open>get_current_operational_mode\<close>: the token check, the request (\<open>answer\<close> is its decoded
  \<open>data\<close>, or the exception the request or the decoding raises), then the label.
\<close>

definition get_current_operational_mode ::
  "string \<Rightarrow> token_manager \<Rightarrow> string \<Rightarrow> cached_modes \<Rightarrow> auth_env \<Rightarrow> exc + mode_status
     \<Rightarrow> http_call list \<times> (exc + string) \<times> token_manager" where
  "get_current_operational_mode base_url token_mgr station_id cached env answer =
     (case ensure_valid_token base_url token_mgr env of
        (calls, Inl e, tm) \<Rightarrow> (calls, Inl e, tm)
      | (calls, Inr u, tm) \<Rightarrow>
          (calls @ [HttpGet (base_url @ ''device/energy-profile/mode/current/'' @ station_id)],
           (case answer of
              Inl e \<Rightarrow> Inl e
            | Inr response_data \<Rightarrow> mode_label_of response_data cached),
           tm))"

text \<open>
  The label as the specification words it: the first entry of the selected list that
  matches, \<open>Unknown mode\<close> when none does.
\<close>

definition label_by_value :: "int \<Rightarrow> working_mode list \<Rightarrow> string" where
  "label_by_value mode modes =
     (case find (\<lambda>m. mode_value m = str_of_int mode) modes of
        None \<Rightarrow> ''Unknown mode'' | Some m \<Rightarrow> mode_label m)"

definition label_by_profile :: "int \<Rightarrow> profile_item list \<Rightarrow> string" where
  "label_by_profile pid items =
     (case find (\<lambda>m. profileId m = pid) items of
        None \<Rightarrow> ''Unknown mode'' | Some m \<Rightarrow> profile_name m)"

section \<open>Stream session manager (\<open>mqtt.py\<close>, \<open>SigenMQTT\<close>)\<close>

text \<open>
  A broker client is made from the host, the port, the user name (the application key)
  and the password (the access token). The manager's fields that the modelled methods
  read and write are kept; certificate paths and the dispatch of received messages to
  the handlers are not part of the model.
\<close>

datatype client = Client string int string json

record sigen_mqtt =
  app_key :: string
  system_ids :: "string list"
  broker :: string
  port :: int
  base_url :: string
  nb_client :: "northbound_client option"
  mqtt_client :: "client option"
  connected :: bool

text \<open>
  What the manager does to the outside, in order: HTTP calls, opening a broker
  connection, publishing a JSON payload on a topic, subscribing to a topic, and sleeping
  a number of seconds. A broker call is recorded when it is made, also when it raises; a
  call that raises is the last broker call of its connection.
\<close>

datatype event =
    Http http_call
  | Connect client
  | Publish string json
  | Subscribe string
  | Sleep nat

definition authenticate ::
  "sigen_mqtt \<Rightarrow> auth_env \<Rightarrow> event list \<times> (exc + json) \<times> sigen_mqtt" where
  "authenticate s env =
     (case from_app_key (base_url s) env of
        (calls, Inl e) \<Rightarrow> (map Http calls, Inl e, s)
      | (calls, Inr inst) \<Rightarrow>
          (map Http calls, Inr (nb_access_token inst), s\<lparr>nb_client := Some inst\<rparr>))"

definition mqtt_ensure_token ::
  "sigen_mqtt \<Rightarrow> auth_env \<Rightarrow> event list \<times> (exc + json) \<times> sigen_mqtt" where
  "mqtt_ensure_token s env =
     (case nb_client s of
        None \<Rightarrow> authenticate s env
      | Some nb \<Rightarrow>
          (case nb_ensure_token nb env of
             (calls, r, nb') \<Rightarrow> (map Http calls, r, s\<lparr>nb_client := Some nb'\<rparr>)))"

text \<open>
  \<open>_subscribe\<close>: the three subscription requests with one payload, then the three topics
  of every system id. \<open>run_calls err k cs\<close> makes the broker calls \<open>cs\<close> in order, the
  first being the \<open>k\<close>-th call on the connection; call \<open>i\<close> raises when \<open>err i\<close> is an
  exception, and no call is made after it.
\<close>

definition sub_payload :: "sigen_mqtt \<Rightarrow> json \<Rightarrow> json" where
  "sub_payload s token =
     JObj [(''accessToken'', token), (''systemIdList'', JList (map JStr (system_ids s)))]"

definition request_topics :: "string list" where
  "request_topics = [''openapi/subscription/period'', ''openapi/subscription/change'',
                     ''openapi/subscription/alarm'']"

definition system_topics :: "sigen_mqtt \<Rightarrow> string \<Rightarrow> string list" where
  "system_topics s sid =
     [''openapi/period/'' @ app_key s @ ''/'' @ sid,
      ''openapi/change/'' @ app_key s @ ''/'' @ sid,
      ''openapi/alarm/'' @ app_key s @ ''/'' @ sid]"

definition subscribe_calls :: "sigen_mqtt \<Rightarrow> json \<Rightarrow> event list" where
  "subscribe_calls s token =
     [Publish ''openapi/subscription/period'' (sub_payload s token),
      Publish ''openapi/subscription/change'' (sub_payload s token),
      Publish ''openapi/subscription/alarm'' (sub_payload s token)]
     @ concat (map (\<lambda>sid. map Subscribe (system_topics s sid)) (system_ids s))"

fun run_calls :: "(nat \<Rightarrow> exc option) \<Rightarrow> nat \<Rightarrow> event list \<Rightarrow> event list \<times> exc option" where
  "run_calls err k [] = ([], None)"
| "run_calls err k (c # cs) =
     (case err k of
        Some e \<Rightarrow> ([c], Some e)
      | None \<Rightarrow> (case run_calls err (Suc k) cs of (tr, r) \<Rightarrow> (c # tr, r)))"

definition subscribe ::
  "sigen_mqtt \<Rightarrow> auth_env \<Rightarrow> (nat \<Rightarrow> exc option) \<Rightarrow> event list \<times> exc option \<times> sigen_mqtt" where
  "subscribe s env err =
     (case mqtt_ensure_token s env of
        (h, Inl e, s') \<Rightarrow> (h, Some e, s')
      | (h, Inr token, s') \<Rightarrow>
          (case run_calls err 0 (subscribe_calls s' token) of
             (tr, r) \<Rightarrow> (h @ tr, r, s')))"

text \<open>
  What the environment does during one pass of the \<open>while True\<close> loop of \<open>listen\<close>: the
  token check at the top, whether opening the connection raises, the token check of
  \<open>_subscribe\<close>, which broker calls raise, the exception that ends the message loop
  (\<open>None\<close>: the loop is still receiving when the observation ends; the message iterator
  itself never ends), and whether the task is cancelled during the sleep of a handler.
\<close>

record attempt =
  connect_auth :: auth_env
  connect_error :: "exc option"
  subscribe_auth :: auth_env
  broker_error :: "nat \<Rightarrow> exc option"
  stream_error :: "exc option"
  sleep_cancelled :: bool

text \<open>The \<open>try\<close> block: its events, the exception that leaves it, and the manager.\<close>

definition listen_body ::
  "sigen_mqtt \<Rightarrow> attempt \<Rightarrow> event list \<times> exc option \<times> sigen_mqtt" where
  "listen_body s a =
     (case mqtt_ensure_token s (connect_auth a) of
        (h, Inl e, s1) \<Rightarrow> (h, Some e, s1)
      | (h, Inr token, s1) \<Rightarrow>
          (let c = Client (broker s1) (port s1) (app_key s1) token in
           case connect_error a of
             Some e \<Rightarrow> (h @ [Connect c], Some e, s1)
           | None \<Rightarrow>
               (let s2 = s1\<lparr>mqtt_client := Some c, connected := True\<rparr> in
                case subscribe s2 (subscribe_auth a) (broker_error a) of
                  (tr, Some e, s3) \<Rightarrow> (h @ Connect c # tr, Some e, s3)
                | (tr, None, s3) \<Rightarrow> (h @ Connect c # tr, stream_error a, s3))))"

text \<open>
  \<open>listen\<close> over the passes the environment scripts. The loop has no exit of its own: it
  ends with the exception it lets through, or is still running (\<open>StillRunning\<close>) when the
  script ends or the message loop is still receiving. The three \<open>except\<close> clauses are
  tried in the order of the source: \<open>MqttError\<close>, \<open>CancelledError\<close>, \<open>Exception\<close>. A
  cancellation during the sleep of a handler leaves the loop as \<open>CancelledError\<close>.
  Signals that are no errors of the program (\<open>KeyboardInterrupt\<close>, \<open>SystemExit\<close>) are
  not modelled.
\<close>

datatype outcome = Raised exc | StillRunning

fun listen :: "sigen_mqtt \<Rightarrow> attempt list \<Rightarrow> event list \<times> outcome \<times> sigen_mqtt" where
  "listen s [] = ([], StillRunning, s)"
| "listen s (a # rest) =
     (case listen_body s a of
        (tr, None, s1) \<Rightarrow> (tr, StillRunning, s1)
      | (tr, Some e, s1) \<Rightarrow>
          (let s2 = s1\<lparr>connected := False, mqtt_client := None\<rparr> in
           if e = MqttError then
             (if sleep_cancelled a then (tr @ [Sleep 30], Raised CancelledError, s2)
              else (case listen s2 rest of (tr', r, s3) \<Rightarrow> (tr @ Sleep 30 # tr', r, s3)))
           else if e = CancelledError then (tr, Raised CancelledError, s2)
           else
             (if sleep_cancelled a then (tr @ [Sleep 60], Raised CancelledError, s2)
              else (case listen s2 rest of (tr', r, s3) \<Rightarrow> (tr @ Sleep 60 # tr', r, s3)))))"

text \<open>
  \<open>send_battery_commands\<close>; \<open>publish_error\<close> is the exception the publish call raises, if
  it does.
\<close>

definition send_battery_commands ::
  "sigen_mqtt \<Rightarrow> auth_env \<Rightarrow> exc option \<Rightarrow> json list \<Rightarrow> event list \<times> (exc + unit) \<times> sigen_mqtt" where
  "send_battery_commands s env publish_error commands =
     (if mqtt_client s = None \<or> \<not> connected s then ([], Inl (RuntimeError ''MQTT not connected''), s)
      else
        (case mqtt_ensure_token s env of
           (h, Inl e, s') \<Rightarrow> (h, Inl e, s')
         | (h, Inr token, s') \<Rightarrow>
             (h @ [Publish ''openapi/instruction/command''
                     (JObj [(''accessToken'', token), (''commands'', JList commands)])],
              (case publish_error of None \<Rightarrow> Inr () | Some e \<Rightarrow> Inl e),
              s')))"

text \<open>
  A check of a sequence of events: every \<open>Subscribe\<close> comes after the three subscription
  requests have been published on the connection opened last. \<open>pub\<close> holds the topics
  published since the last \<open>Connect\<close>.
\<close>

fun requests_first :: "string list \<Rightarrow> event list \<Rightarrow> bool" where
  "requests_first pub [] = True"
| "requests_first pub (Connect c # es) = requests_first [] es"
| "requests_first pub (Publish t p # es) = requests_first (t # pub) es"
| "requests_first pub (Subscribe t # es) =
     (list_all (\<lambda>r. r \<in> set pub) request_topics \<and> requests_first pub es)"
| "requests_first pub (e # es) = requests_first pub es"

section \<open>Verified properties\<close>

subsection \<open>Telemetry decoder\<close>

lemmas float_defs = parse_float_def split_sign_def strip_def is_space_def lower_def
  parse_number_def digitpart_def is_digit_def parse_exponent_def scale10_def
  nat_of_digits_def digit_val_def int_overflows_def float_of_decimal_def

text \<open>
  Claim C5. The decoder applied to the raw entry with \<open>statisticsTime\<close> \<open>t1\<close>, \<open>systemId\<close>
  \<open>S1\<close>, \<open>deviceType\<close> \<open>ESS\<close> and the values \<open>pvPowerW\<close> "1200",
  \<open>storageChargeDischargePowerW\<close> "-500", \<open>storageSOC%\<close> "87.5", \<open>gridActivePowerW\<close>
  "-300", \<open>loadActivePowerW\<close> "900" yields \<open>pv_power_kw\<close> 1.2, \<open>battery_power_kw\<close> 0.5,
  \<open>soc_percent\<close> 87.5, \<open>grid_power_kw\<close> -0.3 and \<open>load_power_kw\<close> 0.9. In general, for
  numeric readings every watt field is divided by 1000, and \<open>battery_power_kw\<close> is the
  negated charge/discharge reading divided by 1000.
\<close>

theorem from_mqtt_payload_example:
  "from_mqtt_payload
     [(''statisticsTime'', JStr ''t1''), (''systemId'', JStr ''S1''),
      (''deviceType'', JStr ''ESS''),
      (''value'', JObj [(''pvPowerW'', JStr ''1200''),
                        (''storageChargeDischargePowerW'', JStr ''-500''),
                        (''storageSOC%'', JStr ''87.5''),
                        (''gridActivePowerW'', JStr ''-300''),
                        (''loadActivePowerW'', JStr ''900'')])]
   = Inr \<lparr> timestamp = JStr ''t1'', system_id = JStr ''S1'', device_type = JStr ''ESS'',
           pv_power_kw = Fin (12 / 10), battery_power_kw = Fin (5 / 10),
           soc_percent = Fin (875 / 10), grid_power_kw = Fin (- (3 / 10)),
           load_power_kw = Fin (9 / 10),
           raw = [(''pvPowerW'', JStr ''1200''),
                  (''storageChargeDischargePowerW'', JStr ''-500''),
                  (''storageSOC%'', JStr ''87.5''),
                  (''gridActivePowerW'', JStr ''-300''),
                  (''loadActivePowerW'', JStr ''900'')] \<rparr>
   \<and> (\<forall>pv b soc g l.
        from_mqtt_payload
          [(''value'', JObj [(''pvPowerW'', JFloat pv),
                             (''storageChargeDischargePowerW'', JFloat b),
                             (''storageSOC%'', JFloat soc),
                             (''gridActivePowerW'', JFloat g),
                             (''loadActivePowerW'', JFloat l)])]
        = Inr \<lparr> timestamp = JStr [], system_id = JStr [], device_type = JStr [],
                pv_power_kw = Fin (pv / 1000), battery_power_kw = Fin (- b / 1000),
                soc_percent = Fin soc, grid_power_kw = Fin (g / 1000),
                load_power_kw = Fin (l / 1000),
                raw = [(''pvPowerW'', JFloat pv),
                       (''storageChargeDischargePowerW'', JFloat b),
                       (''storageSOC%'', JFloat soc),
                       (''gridActivePowerW'', JFloat g),
                       (''loadActivePowerW'', JFloat l)] \<rparr>)"
  by (simp add: from_mqtt_payload_def dict_get_def float_or_default_def and_then_def float_defs)

lemma py_float_raises:
  "py_float v = Inl e \<Longrightarrow>
     e = TypeError \<or> e = ValueError \<or> (e = OverflowError \<and> (\<exists>n. v = JInt n \<and> int_overflows n))"
  by (cases v) (auto split: if_splits option.splits)

lemma float_or_default_field:
  assumes "fits_float kvs key"
  shows "float_or_default (JObj kvs) key = Inr (field_or_zero kvs key)"
proof (cases "map_of kvs key")
  case None
  then show ?thesis by (simp add: float_or_default_def field_or_zero_def dict_get_def)
next
  case (Some v)
  show ?thesis
  proof (cases "py_float v")
    case (Inr f)
    with Some show ?thesis
      by (cases v) (simp_all add: float_or_default_def field_or_zero_def dict_get_def)
  next
    case (Inl e)
    from py_float_raises[OF Inl] assms Some have "e = TypeError \<or> e = ValueError"
      by (auto simp: fits_float_def)
    with Some Inl show ?thesis
      by (cases v) (auto simp add: float_or_default_def field_or_zero_def dict_get_def)
  qed
qed

text \<open>
  Claim C6, as amended. The decoder raises on an entry whose \<open>value\<close> is present and not
  an object (the caller catches it). For every raw entry whose \<open>value\<close> is absent or an
  object, and none of whose five numeric fields is an integer too large for a float, the
  decoder returns a record: each numeric field that is absent, null, or on which \<open>float\<close>
  raises resolves to 0.0 while the other fields are decoded as usual; in particular an
  absent or unparsable \<open>pvPowerW\<close> gives \<open>pv_power_kw\<close> 0.0.
\<close>

theorem from_mqtt_payload_total:
  assumes "dict_get data ''value'' (JObj []) = JObj kvs"
    and "list_all (fits_float kvs) numeric_keys"
  shows "from_mqtt_payload data =
           Inr \<lparr> timestamp = dict_get data ''statisticsTime'' (JStr []),
                 system_id = dict_get data ''systemId'' (JStr []),
                 device_type = dict_get data ''deviceType'' (JStr []),
                 pv_power_kw = fdiv (field_or_zero kvs ''pvPowerW'') 1000,
                 battery_power_kw =
                   fdiv (fneg (field_or_zero kvs ''storageChargeDischargePowerW'')) 1000,
                 soc_percent = field_or_zero kvs ''storageSOC%'',
                 grid_power_kw = fdiv (field_or_zero kvs ''gridActivePowerW'') 1000,
                 load_power_kw = fdiv (field_or_zero kvs ''loadActivePowerW'') 1000,
                 raw = kvs \<rparr>
         \<and> ((map_of kvs ''pvPowerW'' = None
              \<or> (\<exists>v e. map_of kvs ''pvPowerW'' = Some v \<and> py_float v = Inl e))
             \<longrightarrow> fdiv (field_or_zero kvs ''pvPowerW'') 1000 = Fin 0)"
  using assms
  by (auto simp add: from_mqtt_payload_def and_then_def numeric_keys_def
      float_or_default_field field_or_zero_def)

theorem from_mqtt_payload_total_witness:
  "from_mqtt_payload
     [(''systemId'', JStr ''S1''),
      (''value'', JObj [(''pvPowerW'', JStr ''n/a''), (''storageSOC%'', JStr ''55''),
                        (''gridActivePowerW'', JList [])])]
   = Inr \<lparr> timestamp = JStr [], system_id = JStr ''S1'', device_type = JStr [],
           pv_power_kw = Fin 0, battery_power_kw = Fin 0, soc_percent = Fin 55,
           grid_power_kw = Fin 0, load_power_kw = Fin 0,
           raw = [(''pvPowerW'', JStr ''n/a''), (''storageSOC%'', JStr ''55''),
                  (''gridActivePowerW'', JList [])] \<rparr>"
  using from_mqtt_payload_total
    [of "[(''systemId'', JStr ''S1''),
          (''value'', JObj [(''pvPowerW'', JStr ''n/a''), (''storageSOC%'', JStr ''55''),
                            (''gridActivePowerW'', JList [])])]"
        "[(''pvPowerW'', JStr ''n/a''), (''storageSOC%'', JStr ''55''),
          (''gridActivePowerW'', JList [])]"]
  by (simp add: dict_get_def numeric_keys_def fits_float_def field_or_zero_def float_defs)

theorem from_mqtt_payload_raises:
  "from_mqtt_payload [(''systemId'', JStr ''S1''), (''value'', JNull)] = Inl AttributeError"
  by (simp add: from_mqtt_payload_def dict_get_def float_or_default_def and_then_def)

subsection \<open>Token manager and northbound client\<close>

text \<open>
  Claim C10. The auth-headers operation of the token manager is total and does not guard
  for an absent token: for every state it returns the two entries \<open>Authorization\<close>, the
  text \<open>Bearer\<close> followed by \<open>str\<close> of the access token, and \<open>Content-Type\<close>
  \<open>application/json\<close>; when no token was ever installed the \<open>Authorization\<close> value is
  \<open>Bearer None\<close>.
\<close>

theorem headers_without_guard:
  "headers repr tm =
     [(''Authorization'', ''Bearer '' @ py_str repr (access_token tm)),
      (''Content-Type'', ''application/json'')]
   \<and> headers repr new_token_manager =
       [(''Authorization'', ''Bearer None''), (''Content-Type'', ''application/json'')]
   \<and> headers repr (tm\<lparr>access_token := JNull\<rparr>) =
       [(''Authorization'', ''Bearer None''), (''Content-Type'', ''application/json'')]
   \<and> headers repr (tm\<lparr>access_token := JStr t\<rparr>) =
       [(''Authorization'', ''Bearer '' @ t), (''Content-Type'', ''application/json'')]"
  by (simp add: headers_def new_token_manager_def)

lemma refresh_calls:
  "fst (refresh_access_token base tm env) = [HttpPost (base @ ''auth/oauth/token'')]"
  by (simp add: refresh_access_token_def)

lemma relogin_calls:
  "fst (if has_app_key nb then login_with_key nb env else login nb env) \<noteq> []"
  by (simp add: login_with_key_def login_def)

lemma nb_ensure_token_calls:
  "(fst (nb_ensure_token nb env) \<noteq> []) =
     (\<not> truthy (nb_access_token nb)
      \<or> (case nb_token_expiry nb of None \<Rightarrow> False | Some t \<Rightarrow> t \<noteq> 0 \<and> t \<le> clock env))"
proof (cases "\<not> truthy (nb_access_token nb)
      \<or> (case nb_token_expiry nb of None \<Rightarrow> False | Some t \<Rightarrow> t \<noteq> 0 \<and> t \<le> clock env)")
  case True
  obtain calls r nb' where
    l: "(if has_app_key nb then login_with_key nb env else login nb env) = (calls, r, nb')"
    by (cases "if has_app_key nb then login_with_key nb env else login nb env") auto
  with relogin_calls [of nb env] have "calls \<noteq> []" by simp
  with True l show ?thesis
    by (cases r) (auto simp add: nb_ensure_token_def)
next
  case False
  then show ?thesis by (auto simp add: nb_ensure_token_def)
qed

text \<open>
  Claim C3, as amended. Password mechanism (\<open>ensure_valid_token\<close>): a refresh is made
  if and only if the expiry is present and \<open>now \<ge> expiry\<close>, whether or not a token is
  present, so a store never populated triggers no refresh; for a store that holds a token
  this is if and only if the store is not valid at \<open>now\<close>. Key mechanism (\<open>ensure_token\<close> of
  the northbound client): for a store whose token is absent or not empty and whose expiry
  is not exactly 0, a new login is made if and only if the store is not valid at \<open>now\<close>,
  so an absent token triggers one. In both, \<open>now = expiry\<close> counts as stale, and when no
  refresh or login is triggered there is no network call and no state change.
\<close>

theorem ensure_valid_iff_stale:
  "((fst (ensure_valid_token base tm env) \<noteq> [])
      = (case token_expiry tm of None \<Rightarrow> False | Some t \<Rightarrow> t \<le> clock env))
   \<and> (access_token tm \<noteq> JNull \<longrightarrow>
        (fst (ensure_valid_token base tm env) \<noteq> [])
          = (\<not> store_valid (access_token tm) (token_expiry tm) (clock env)))
   \<and> (fst (ensure_valid_token base tm env) = [] \<longrightarrow>
        ensure_valid_token base tm env = ([], Inr (), tm))
   \<and> (fst (ensure_valid_token base tm env) \<noteq> [] \<longrightarrow>
        ensure_valid_token base tm env = refresh_access_token base tm env)
   \<and> ((nb_access_token nb = JNull \<or> truthy (nb_access_token nb)) \<and> nb_token_expiry nb \<noteq> Some 0 \<longrightarrow>
        (fst (nb_ensure_token nb env) \<noteq> [])
          = (\<not> store_valid (nb_access_token nb) (nb_token_expiry nb) (clock env)))
   \<and> (fst (nb_ensure_token nb env) = [] \<longrightarrow>
        nb_ensure_token nb env = ([], Inr (nb_access_token nb), nb))"
proof -
  have a: "(fst (ensure_valid_token base tm env) \<noteq> [])
      = (case token_expiry tm of None \<Rightarrow> False | Some t \<Rightarrow> t \<le> clock env)"
    by (simp add: ensure_valid_token_def refresh_calls split: option.splits)
  have b: "access_token tm \<noteq> JNull \<longrightarrow>
        (fst (ensure_valid_token base tm env) \<noteq> [])
          = (\<not> store_valid (access_token tm) (token_expiry tm) (clock env))"
    unfolding a by (auto simp add: store_valid_def split: option.splits)
  have c: "fst (ensure_valid_token base tm env) = [] \<longrightarrow>
        ensure_valid_token base tm env = ([], Inr (), tm)"
    by (simp add: ensure_valid_token_def refresh_calls split: option.splits)
  have d: "fst (ensure_valid_token base tm env) \<noteq> [] \<longrightarrow>
        ensure_valid_token base tm env = refresh_access_token base tm env"
    by (simp add: ensure_valid_token_def split: option.splits)
  have e: "(nb_access_token nb = JNull \<or> truthy (nb_access_token nb)) \<and> nb_token_expiry nb \<noteq> Some 0 \<longrightarrow>
        (fst (nb_ensure_token nb env) \<noteq> [])
          = (\<not> store_valid (nb_access_token nb) (nb_token_expiry nb) (clock env))"
    unfolding nb_ensure_token_calls by (auto simp add: store_valid_def split: option.splits)
  have f: "fst (nb_ensure_token nb env) = [] \<longrightarrow>
        nb_ensure_token nb env = ([], Inr (nb_access_token nb), nb)"
  proof
    assume "fst (nb_ensure_token nb env) = []"
    with nb_ensure_token_calls [of nb env]
    have "\<not> (\<not> truthy (nb_access_token nb)
      \<or> (case nb_token_expiry nb of None \<Rightarrow> False | Some t \<Rightarrow> t \<noteq> 0 \<and> t \<le> clock env))"
      by simp
    then show "nb_ensure_token nb env = ([], Inr (nb_access_token nb), nb)"
      by (auto simp add: nb_ensure_token_def)
  qed
  from a b c d e f show ?thesis by blast
qed

text \<open>
  The theorem at stores that expire exactly at \<open>now = 100\<close>: both mechanisms make their
  request; and at a store of the key mechanism that is valid at 99: nothing happens.
\<close>

theorem ensure_valid_iff_stale_witness:
  "fst (ensure_valid_token ''https://api/''
          \<lparr> access_token = JStr ''A0'', refresh_token = JStr ''R0'', token_expiry = Some 100 \<rparr>
          \<lparr> clock = 100, reply = Inl ClientError, decoded = None, clock_after = 100 \<rparr>)
     = [HttpPost ''https://api/auth/oauth/token'']
   \<and> fst (nb_ensure_token
          \<lparr> nb_base_url = ''https://api/'', nb_access_token = JStr ''T0'',
            nb_token_expiry = Some 100, has_app_key = True \<rparr>
          \<lparr> clock = 100, reply = Inl ClientError, decoded = None, clock_after = 100 \<rparr>)
     = [HttpPost ''https://api/openapi/auth/login/key'']
   \<and> nb_ensure_token
          \<lparr> nb_base_url = ''https://api/'', nb_access_token = JStr ''T0'',
            nb_token_expiry = Some 100, has_app_key = True \<rparr>
          \<lparr> clock = 99, reply = Inl ClientError, decoded = None, clock_after = 99 \<rparr>
     = ([], Inr (JStr ''T0''),
        \<lparr> nb_base_url = ''https://api/'', nb_access_token = JStr ''T0'',
          nb_token_expiry = Some 100, has_app_key = True \<rparr>)"
  using ensure_valid_iff_stale
    [of "''https://api/''"
        "\<lparr> access_token = JStr ''A0'', refresh_token = JStr ''R0'', token_expiry = Some 100 \<rparr>"
        "\<lparr> clock = 100, reply = Inl ClientError, decoded = None, clock_after = 100 \<rparr>"
        "\<lparr> nb_base_url = ''https://api/'', nb_access_token = JStr ''T0'',
           nb_token_expiry = Some 100, has_app_key = True \<rparr>"]
  by (simp add: ensure_valid_token_def refresh_access_token_def nb_ensure_token_def
      login_with_key_def login_response_def store_valid_def)

text \<open>
  The claim as stated fails on the password mechanism: a token manager never populated is
  not valid (no token is present), and \<open>ensure_valid_token\<close> makes no request.
\<close>

theorem ensure_valid_no_token_no_refresh:
  "\<not> store_valid (access_token new_token_manager) (token_expiry new_token_manager) 100
   \<and> ensure_valid_token ''https://api/'' new_token_manager
        \<lparr> clock = 100, reply = Inl ClientError, decoded = None, clock_after = 100 \<rparr>
      = ([], Inr (), new_token_manager)"
  by (simp add: store_valid_def new_token_manager_def ensure_valid_token_def)

text \<open>
  For a status other than 200, and for a \<open>data\<close> envelope that is missing or lacks one of
  the three fields, both operations raise their error and leave the token manager as it
  was.
\<close>

lemma listed_failures_keep_state:
  "status r \<noteq> 200 \<Longrightarrow>
     get_access_token base tm (env\<lparr>reply := Inr r\<rparr>)
       = ([HttpPost (base @ ''auth/oauth/token'')], Inl SigenAuthError, tm)"
  "status r \<noteq> 200 \<Longrightarrow>
     refresh_access_token base tm (env\<lparr>reply := Inr r\<rparr>)
       = ([HttpPost (base @ ''auth/oauth/token'')], Inl SigenTokenExpiredError, tm)"
  "status r = 200 \<Longrightarrow> body r = Some (JObj kvs) \<Longrightarrow> dict_get kvs ''data'' JNull = JObj d \<Longrightarrow>
   map_of d ''access_token'' = None \<or> map_of d ''refresh_token'' = None
     \<or> map_of d ''expires_in'' = None \<Longrightarrow>
     get_access_token base tm (env\<lparr>reply := Inr r\<rparr>)
       = ([HttpPost (base @ ''auth/oauth/token'')], Inl SigenAuthError, tm)
     \<and> refresh_access_token base tm (env\<lparr>reply := Inr r\<rparr>)
       = ([HttpPost (base @ ''auth/oauth/token'')], Inl SigenTokenExpiredError, tm)"
  "status r = 200 \<Longrightarrow> body r = Some (JObj kvs) \<Longrightarrow> map_of kvs ''data'' = None \<Longrightarrow>
     get_access_token base tm (env\<lparr>reply := Inr r\<rparr>)
       = ([HttpPost (base @ ''auth/oauth/token'')], Inl SigenAuthError, tm)
     \<and> refresh_access_token base tm (env\<lparr>reply := Inr r\<rparr>)
       = ([HttpPost (base @ ''auth/oauth/token'')], Inl SigenTokenExpiredError, tm)"
  by (auto simp add: get_access_token_def refresh_access_token_def token_response_def
      grant_fields_present_def and_then_def dict_get_def)

text \<open>
  Claim C4 (the code departs from it). Token installation is claimed to be atomic: every
  failure of the password login raises \<open>SigenAuthError\<close>, every failure of the refresh
  raises \<open>SigenTokenExpiredError\<close>, and no failure changes a field of the token store.
  But an answer with status 200 whose \<open>expires_in\<close> is present and not a number, here the
  string "3600", passes the test of the three fields; the access token and the refresh
  token are overwritten, then the sum for the expiry raises \<open>TypeError\<close>: the operation
  fails with the store half updated (new tokens, old expiry), and the error is neither
  \<open>SigenAuthError\<close> nor \<open>SigenTokenExpiredError\<close>.
\<close>

theorem token_installation_not_atomic:
  "refresh_access_token ''https://api/''
     \<lparr> access_token = JStr ''A0'', refresh_token = JStr ''R0'', token_expiry = Some 100 \<rparr>
     \<lparr> clock = 100,
       reply = Inr \<lparr> status = 200,
                     body = Some (JObj [(''data'', JObj [(''access_token'', JStr ''A1''),
                                                         (''refresh_token'', JStr ''R1''),
                                                         (''expires_in'', JStr ''3600'')])]) \<rparr>,
       decoded = None, clock_after = 100 \<rparr>
   = ([HttpPost ''https://api/auth/oauth/token''], Inl TypeError,
      \<lparr> access_token = JStr ''A1'', refresh_token = JStr ''R1'', token_expiry = Some 100 \<rparr>)
   \<and> get_access_token ''https://api/''
     \<lparr> access_token = JStr ''A0'', refresh_token = JStr ''R0'', token_expiry = Some 100 \<rparr>
     \<lparr> clock = 100,
       reply = Inr \<lparr> status = 200,
                     body = Some (JObj [(''data'', JObj [(''access_token'', JStr ''A1''),
                                                         (''refresh_token'', JStr ''R1''),
                                                         (''expires_in'', JStr ''3600'')])]) \<rparr>,
       decoded = None, clock_after = 100 \<rparr>
   = ([HttpPost ''https://api/auth/oauth/token''], Inl TypeError,
      \<lparr> access_token = JStr ''A1'', refresh_token = JStr ''R1'', token_expiry = Some 100 \<rparr>)"
  by (simp add: get_access_token_def refresh_access_token_def token_response_def
      grant_fields_present_def install_grant_def and_then_def dict_get_def)

subsection \<open>Operational modes\<close>

lemma match_value_find:
  "match_value v ms = map_option mode_label (find (\<lambda>m. mode_value m = v) ms)"
  by (induction ms) auto

lemma match_profile_find:
  "match_profile p ms = map_option profile_name (find (\<lambda>m. profileId m = p) ms)"
  by (induction ms) auto

text \<open>
  Claim C9. The label of the current mode is found by the mode value: for every mode
  other than 9 it is the label of the first cached default working mode whose value is
  the mode as a string; for mode 9 it is the name of the first cached energy profile
  whose id is the current profile id; when the selected list has no match the result is
  \<open>Unknown mode\<close>. (A cache without the selected list raises \<open>KeyError\<close>.)
\<close>

theorem mode_label_dispatch:
  "mode_label_of r cached =
     (if currentMode r \<noteq> 9 then
        (case defaultWorkingModes cached of
           None \<Rightarrow> Inl (KeyError ''defaultWorkingModes'')
         | Some modes \<Rightarrow> Inr (label_by_value (currentMode r) modes))
      else
        (case energyProfileItems cached of
           None \<Rightarrow> Inl (KeyError ''energyProfileItems'')
         | Some items \<Rightarrow> Inr (label_by_profile (currentProfileId r) items)))
   \<and> fst (snd (get_current_operational_mode base tm station cached env (Inr r))) =
       (case fst (snd (ensure_valid_token base tm env)) of
          Inl e \<Rightarrow> Inl e
        | Inr u \<Rightarrow> mode_label_of r cached)
   \<and> label_by_value m [] = ''Unknown mode'' \<and> label_by_profile p [] = ''Unknown mode''"
  by (auto simp add: mode_label_of_def label_by_value_def label_by_profile_def
      match_value_find match_profile_find get_current_operational_mode_def
      split: option.splits prod.splits sum.splits)

subsection \<open>Stream session manager\<close>

text \<open>The token check changes nothing of the manager but its northbound client.\<close>

lemma mqtt_ensure_token_frame:
  assumes "mqtt_ensure_token s env = (h, r, s')"
  shows "s' = s\<lparr>nb_client := nb_client s'\<rparr> \<and> (\<exists>calls. h = map Http calls)"
proof (cases "nb_client s")
  case None
  with assms show ?thesis
    by (auto simp add: mqtt_ensure_token_def authenticate_def split: prod.splits sum.splits)
next
  case (Some nb)
  with assms show ?thesis
    by (auto simp add: mqtt_ensure_token_def split: prod.splits)
qed

text \<open>A token it returns is the token its northbound client holds afterwards.\<close>

lemma login_response_token:
  "login_response nb env = (Inr tok, nb') \<Longrightarrow> nb_access_token nb' = tok"
  by (auto simp add: login_response_def Let_def split: sum.splits option.splits if_splits)

lemma login_with_key_token:
  "login_with_key nb env = (calls, Inr tok, nb') \<Longrightarrow> nb_access_token nb' = tok"
  by (auto simp add: login_with_key_def login_response_token split: if_splits)




text \<open>
  Claim C7 (the code departs from it). The command operation has no test of the batch
  size: connected, with a valid token, it publishes a batch of 25 commands whole.
\<close>

theorem send_battery_commands_oversized:
  "send_battery_commands
     \<lparr> app_key = ''KEY'', system_ids = [''S1''], broker = ''mqtt-eu.sigencloud.com'',
       port = 8883, base_url = ''https://api-eu.sigencloud.com/'',
       nb_client = Some \<lparr> nb_base_url = ''https://api-eu.sigencloud.com/'',
                          nb_access_token = JStr ''T0'', nb_token_expiry = Some 1000,
                          has_app_key = True \<rparr>,
       mqtt_client = Some (Client ''mqtt-eu.sigencloud.com'' 8883 ''KEY'' (JStr ''T0'')),
       connected = True \<rparr>
     \<lparr> clock = 10, reply = Inl ClientError, decoded = None, clock_after = 10 \<rparr>
     None
     (replicate 25 (JObj [(''systemId'', JStr ''S1'')]))
   = ([Publish ''openapi/instruction/command''
         (JObj [(''accessToken'', JStr ''T0''),
                (''commands'', JList (replicate 25 (JObj [(''systemId'', JStr ''S1'')])))])],
      Inr (),
      \<lparr> app_key = ''KEY'', system_ids = [''S1''], broker = ''mqtt-eu.sigencloud.com'',
        port = 8883, base_url = ''https://api-eu.sigencloud.com/'',
        nb_client = Some \<lparr> nb_base_url = ''https://api-eu.sigencloud.com/'',
                           nb_access_token = JStr ''T0'', nb_token_expiry = Some 1000,
                           has_app_key = True \<rparr>,
        mqtt_client = Some (Client ''mqtt-eu.sigencloud.com'' 8883 ''KEY'' (JStr ''T0'')),
        connected = True \<rparr>)
   \<and> length (replicate 25 (JObj [(''systemId'', JStr ''S1'')])) = 25"
  by (simp add: send_battery_commands_def mqtt_ensure_token_def nb_ensure_token_def)

lemma listen_raises_cancel:
  "listen s script = (tr, Raised e, s') \<Longrightarrow>
     e = CancelledError \<and> \<not> connected s' \<and> mqtt_client s' = None"
proof (induction script arbitrary: s tr)
  case Nil
  then show ?case by simp
next
  case (Cons a rest)
  obtain t x s1 where body: "listen_body s a = (t, x, s1)"
    by (cases "listen_body s a") auto
  show ?case
  proof (cases x)
    case None
    with body Cons.prems show ?thesis by simp
  next
    case (Some e0)
    obtain t' r s3 where
      next_pass: "listen (s1\<lparr>connected := False, mqtt_client := None\<rparr>) rest = (t', r, s3)"
      by (cases "listen (s1\<lparr>connected := False, mqtt_client := None\<rparr>) rest") auto
    show ?thesis
    proof (cases "e0 = CancelledError \<or> sleep_cancelled a")
      case True
      with body Some Cons.prems show ?thesis
        by (auto simp add: Let_def split: if_splits)
    next
      case False
      with body Some next_pass Cons.prems have "r = Raised e" and "s3 = s'"
        by (auto simp add: Let_def split: if_splits)
      with next_pass Cons.IH show ?thesis by blast
    qed
  qed
qed

text \<open>
  Claim C1. Whenever an exception leaves the \<open>try\<close> block of a pass of the listen loop:
  a broker error marks the manager disconnected, sleeps 30 seconds and runs the next pass
  from its top (token check, then connect); any exception other than a broker error and a
  cancellation marks it disconnected, sleeps 60 seconds and runs the next pass; a
  cancellation marks it disconnected and leaves the loop at once, with no sleep and no
  further pass (so does a cancellation that arrives during one of the two sleeps). The
  loop is left by no exception but a cancellation, and then the manager is disconnected.
\<close>

theorem listen_fault_handling:
  "(\<forall>tr e s1. listen_body s a = (tr, Some e, s1) \<longrightarrow>
      (e = MqttError \<and> \<not> sleep_cancelled a \<longrightarrow>
         listen s (a # rest) =
           (case listen (s1\<lparr>connected := False, mqtt_client := None\<rparr>) rest of
              (tr', r, s3) \<Rightarrow> (tr @ Sleep 30 # tr', r, s3)))
    \<and> (e \<noteq> MqttError \<and> e \<noteq> CancelledError \<and> \<not> sleep_cancelled a \<longrightarrow>
         listen s (a # rest) =
           (case listen (s1\<lparr>connected := False, mqtt_client := None\<rparr>) rest of
              (tr', r, s3) \<Rightarrow> (tr @ Sleep 60 # tr', r, s3)))
    \<and> (e = CancelledError \<longrightarrow>
         listen s (a # rest) =
           (tr, Raised CancelledError, s1\<lparr>connected := False, mqtt_client := None\<rparr>))
    \<and> (e \<noteq> CancelledError \<and> sleep_cancelled a \<longrightarrow>
         listen s (a # rest) =
           (tr @ [Sleep (if e = MqttError then 30 else 60)], Raised CancelledError,
            s1\<lparr>connected := False, mqtt_client := None\<rparr>)))
   \<and> (\<forall>tr e s'. listen s script = (tr, Raised e, s') \<longrightarrow>
        e = CancelledError \<and> \<not> connected s' \<and> mqtt_client s' = None)"
proof -
  have handlers: "\<forall>tr e s1. listen_body s a = (tr, Some e, s1) \<longrightarrow>
      (e = MqttError \<and> \<not> sleep_cancelled a \<longrightarrow>
         listen s (a # rest) =
           (case listen (s1\<lparr>connected := False, mqtt_client := None\<rparr>) rest of
              (tr', r, s3) \<Rightarrow> (tr @ Sleep 30 # tr', r, s3)))
    \<and> (e \<noteq> MqttError \<and> e \<noteq> CancelledError \<and> \<not> sleep_cancelled a \<longrightarrow>
         listen s (a # rest) =
           (case listen (s1\<lparr>connected := False, mqtt_client := None\<rparr>) rest of
              (tr', r, s3) \<Rightarrow> (tr @ Sleep 60 # tr', r, s3)))
    \<and> (e = CancelledError \<longrightarrow>
         listen s (a # rest) =
           (tr, Raised CancelledError, s1\<lparr>connected := False, mqtt_client := None\<rparr>))
    \<and> (e \<noteq> CancelledError \<and> sleep_cancelled a \<longrightarrow>
         listen s (a # rest) =
           (tr @ [Sleep (if e = MqttError then 30 else 60)], Raised CancelledError,
            s1\<lparr>connected := False, mqtt_client := None\<rparr>))"
    by (simp add: Let_def)
  have only_cancel: "\<forall>tr e s'. listen s script = (tr, Raised e, s') \<longrightarrow>
        e = CancelledError \<and> \<not> connected s' \<and> mqtt_client s' = None"
    using listen_raises_cancel by blast
  from handlers only_cancel show ?thesis by blast
qed

text \<open>
  The theorem on three passes of a manager whose token is valid: the first connection is
  lost while streaming (broker error), the second attempt to connect fails otherwise, the
  third is cancelled.
\<close>

theorem listen_fault_handling_witness:
  "listen
     \<lparr> app_key = ''KEY'', system_ids = [''S1''], broker = ''mqtt-eu.sigencloud.com'',
       port = 8883, base_url = ''https://api-eu.sigencloud.com/'',
       nb_client = Some \<lparr> nb_base_url = ''https://api-eu.sigencloud.com/'',
                          nb_access_token = JStr ''T0'', nb_token_expiry = Some 1000,
                          has_app_key = True \<rparr>,
       mqtt_client = None, connected = False \<rparr>
     [\<lparr> connect_auth = \<lparr> clock = 10, reply = Inl ClientError, decoded = None, clock_after = 10 \<rparr>,
        connect_error = None,
        subscribe_auth = \<lparr> clock = 11, reply = Inl ClientError, decoded = None, clock_after = 11 \<rparr>,
        broker_error = (\<lambda>k. None), stream_error = Some MqttError, sleep_cancelled = False \<rparr>,
      \<lparr> connect_auth = \<lparr> clock = 50, reply = Inl ClientError, decoded = None, clock_after = 50 \<rparr>,
        connect_error = Some ValueError,
        subscribe_auth = \<lparr> clock = 51, reply = Inl ClientError, decoded = None, clock_after = 51 \<rparr>,
        broker_error = (\<lambda>k. None), stream_error = None, sleep_cancelled = False \<rparr>,
      \<lparr> connect_auth = \<lparr> clock = 120, reply = Inl ClientError, decoded = None, clock_after = 120 \<rparr>,
        connect_error = Some CancelledError,
        subscribe_auth = \<lparr> clock = 121, reply = Inl ClientError, decoded = None, clock_after = 121 \<rparr>,
        broker_error = (\<lambda>k. None), stream_error = None, sleep_cancelled = False \<rparr>]
   = ([Connect (Client ''mqtt-eu.sigencloud.com'' 8883 ''KEY'' (JStr ''T0'')),
       Publish ''openapi/subscription/period''
         (JObj [(''accessToken'', JStr ''T0''), (''systemIdList'', JList [JStr ''S1''])]),
       Publish ''openapi/subscription/change''
         (JObj [(''accessToken'', JStr ''T0''), (''systemIdList'', JList [JStr ''S1''])]),
       Publish ''openapi/subscription/alarm''
         (JObj [(''accessToken'', JStr ''T0''), (''systemIdList'', JList [JStr ''S1''])]),
       Subscribe ''openapi/period/KEY/S1'', Subscribe ''openapi/change/KEY/S1'',
       Subscribe ''openapi/alarm/KEY/S1'',
       Sleep 30,
       Connect (Client ''mqtt-eu.sigencloud.com'' 8883 ''KEY'' (JStr ''T0'')),
       Sleep 60,
       Connect (Client ''mqtt-eu.sigencloud.com'' 8883 ''KEY'' (JStr ''T0''))],
      Raised CancelledError,
      \<lparr> app_key = ''KEY'', system_ids = [''S1''], broker = ''mqtt-eu.sigencloud.com'',
        port = 8883, base_url = ''https://api-eu.sigencloud.com/'',
        nb_client = Some \<lparr> nb_base_url = ''https://api-eu.sigencloud.com/'',
                           nb_access_token = JStr ''T0'', nb_token_expiry = Some 1000,
                           has_app_key = True \<rparr>,
        mqtt_client = None, connected = False \<rparr>)"
  (is "listen ?s (?a1 # ?rest) = ?result")
proof -
  let ?c = "Client ''mqtt-eu.sigencloud.com'' 8883 ''KEY'' (JStr ''T0'')"
  let ?p = "JObj [(''accessToken'', JStr ''T0''), (''systemIdList'', JList [JStr ''S1''])]"
  have body: "listen_body ?s ?a1 =
      ([Connect ?c,
        Publish ''openapi/subscription/period'' ?p, Publish ''openapi/subscription/change'' ?p,
        Publish ''openapi/subscription/alarm'' ?p,
        Subscribe ''openapi/period/KEY/S1'', Subscribe ''openapi/change/KEY/S1'',
        Subscribe ''openapi/alarm/KEY/S1''],
       Some MqttError, ?s\<lparr>mqtt_client := Some ?c, connected := True\<rparr>)"
    by (simp add: listen_body_def subscribe_def subscribe_calls_def sub_payload_def
        system_topics_def mqtt_ensure_token_def nb_ensure_token_def Let_def)
  note handlers = listen_fault_handling [of ?s ?a1 ?rest "[]", THEN conjunct1, rule_format, OF body]
  then have step: "listen ?s (?a1 # ?rest) =
      (case listen ?s ?rest of
         (tr', r, s3) \<Rightarrow>
           ([Connect ?c,
             Publish ''openapi/subscription/period'' ?p, Publish ''openapi/subscription/change'' ?p,
             Publish ''openapi/subscription/alarm'' ?p,
             Subscribe ''openapi/period/KEY/S1'', Subscribe ''openapi/change/KEY/S1'',
             Subscribe ''openapi/alarm/KEY/S1''] @ Sleep 30 # tr', r, s3))"
    by simp
  have rest: "listen ?s ?rest = ([Connect ?c, Sleep 60, Connect ?c], Raised CancelledError, ?s)"
    by (simp add: listen_body_def mqtt_ensure_token_def nb_ensure_token_def Let_def)
  show ?thesis
    unfolding step rest by simp
qed

lemma mqtt_ensure_token_fields:
  assumes "mqtt_ensure_token s env = (h, r, s')"
  shows "app_key s' = app_key s \<and> system_ids s' = system_ids s \<and> broker s' = broker s
         \<and> port s' = port s \<and> base_url s' = base_url s
         \<and> mqtt_client s' = mqtt_client s \<and> connected s' = connected s"
proof (cases "nb_client s")
  case None
  with assms show ?thesis
    by (auto simp add: mqtt_ensure_token_def authenticate_def split: prod.splits sum.splits)
next
  case (Some nb)
  with assms show ?thesis
    by (auto simp add: mqtt_ensure_token_def split: prod.splits)
qed

lemma requests_first_http: "requests_first pub (map Http calls @ es) = requests_first pub es"
  by (induction calls) auto

lemma requests_first_append:
  "requests_first pub xs \<Longrightarrow> (\<And>p. requests_first p ys) \<Longrightarrow> requests_first pub (xs @ ys)"
proof (induction xs arbitrary: pub)
  case Nil
  then show ?case by simp
next
  case (Cons x xs)
  then show ?case by (cases x) auto
qed

lemma run_subscribes_first:
  "list_all (\<lambda>r. r \<in> set pub) request_topics \<Longrightarrow>
     requests_first pub (fst (run_calls err k (map Subscribe ts)))"
  by (induction ts arbitrary: k) (auto simp add: case_prod_beta split: option.splits)

lemma subscribe_calls_first:
  "requests_first [] (fst (run_calls err 0 (subscribe_calls s token)))"
proof -
  have tail: "concat (map (\<lambda>sid. map Subscribe (system_topics s sid)) (system_ids s))
      = map Subscribe (concat (map (system_topics s) (system_ids s)))"
    by (simp add: map_concat comp_def)
  have "requests_first [''openapi/subscription/alarm'', ''openapi/subscription/change'',
                        ''openapi/subscription/period'']
          (fst (run_calls err k (map Subscribe ts)))" for k ts
    by (rule run_subscribes_first) (simp add: request_topics_def)
  then show ?thesis
    unfolding subscribe_calls_def tail
    by (auto simp add: case_prod_beta split: option.splits)
qed

lemma listen_body_first: "requests_first pub (fst (listen_body s a))"
proof -
  obtain h r s1 where t1: "mqtt_ensure_token s (connect_auth a) = (h, r, s1)"
    by (cases "mqtt_ensure_token s (connect_auth a)") auto
  from mqtt_ensure_token_frame [OF t1] obtain calls where h: "h = map Http calls" by blast
  show ?thesis
  proof (cases r)
    case (Inl e)
    with t1 h requests_first_http [of pub calls "[]"] show ?thesis
      by (simp add: listen_body_def)
  next
    case (Inr token)
    show ?thesis
    proof (cases "connect_error a")
      case (Some e)
      with t1 h Inr show ?thesis
        by (simp add: listen_body_def requests_first_http)
    next
      case None
      define s2 where "s2 = s1\<lparr>mqtt_client := Some (Client (broker s1) (port s1) (app_key s1) token),
                               connected := True\<rparr>"
      obtain h2 r2 s3 where t2: "mqtt_ensure_token s2 (subscribe_auth a) = (h2, r2, s3)"
        by (cases "mqtt_ensure_token s2 (subscribe_auth a)") auto
      from mqtt_ensure_token_frame [OF t2] obtain calls2 where h2: "h2 = map Http calls2"
        by blast
      have sub: "requests_first [] (fst (subscribe s2 (subscribe_auth a) (broker_error a)))"
      proof (cases r2)
        case (Inl e)
        with t2 h2 requests_first_http [of "[]" calls2 "[]"] show ?thesis
          by (simp add: subscribe_def)
      next
        case (Inr token2)
        with t2 h2 subscribe_calls_first [of "broker_error a" s3 token2] show ?thesis
          by (simp add: subscribe_def requests_first_http case_prod_beta)
      qed
      from t1 h Inr None sub show ?thesis
        by (auto simp add: listen_body_def Let_def s2_def requests_first_http case_prod_beta
            split: option.splits)
    qed
  qed
qed

lemma listen_first: "requests_first pub (fst (listen s script))"
proof (induction script arbitrary: s pub)
  case Nil
  show ?case by simp
next
  case (Cons a rest)
  obtain t x s1 where body: "listen_body s a = (t, x, s1)"
    by (cases "listen_body s a") auto
  from listen_body_first [of pub s a] body have t: "requests_first pub t" by simp
  have sleep: "requests_first p (Sleep n # fst (listen s' rest))" for p n s'
    using Cons.IH by simp
  have sleep_only: "requests_first p [Sleep n]" for p n by simp
  show ?case
  proof (cases x)
    case None
    with body t show ?thesis by simp
  next
    case (Some e)
    from t sleep have "requests_first pub (t @ Sleep n # fst (listen s' rest))" for n s'
      by (rule requests_first_append)
    moreover from t sleep_only have "requests_first pub (t @ [Sleep n])" for n
      by (rule requests_first_append)
    ultimately show ?thesis
      using body Some t by (auto simp add: Let_def case_prod_beta)
  qed
qed

lemma run_calls_all_ok: "(\<And>k. err k = None) \<Longrightarrow> run_calls err i cs = (cs, None)"
  by (induction cs arbitrary: i) auto

text \<open>The calls are made in order up to the first that raises, and none after it.\<close>

lemma run_calls_first_raise:
  "err (i + k) = Some e \<Longrightarrow> (\<And>j. j < k \<Longrightarrow> err (i + j) = None) \<Longrightarrow> k < length cs \<Longrightarrow>
     run_calls err i cs = (take (Suc k) cs, Some e)"
proof (induction cs arbitrary: i k)
  case Nil
  then show ?case by simp
next
  case (Cons c cs)
  show ?case
  proof (cases k)
    case 0
    with Cons.prems show ?thesis by simp
  next
    case (Suc k')
    from Cons.prems(2) [of 0] Suc have first: "err i = None" by simp
    have "run_calls err (Suc i) cs = (take (Suc k') cs, Some e)"
    proof (rule Cons.IH)
      from Cons.prems(1) Suc show "err (Suc i + k') = Some e" by simp
      show "err (Suc i + j) = None" if "j < k'" for j
        using Cons.prems(2) [of "Suc j"] that Suc by simp
      from Cons.prems(3) Suc show "k' < length cs" by simp
    qed
    with first Suc show ?thesis by simp
  qed
qed

text \<open>The passes of the loop leave the configuration of the manager as it is.\<close>

lemma listen_body_fields:
  assumes "listen_body s a = (t, x, s1)"
  shows "app_key s1 = app_key s \<and> system_ids s1 = system_ids s \<and> broker s1 = broker s
         \<and> port s1 = port s"
proof -
  obtain h r sa where t1: "mqtt_ensure_token s (connect_auth a) = (h, r, sa)"
    by (cases "mqtt_ensure_token s (connect_auth a)") auto
  note f1 = mqtt_ensure_token_fields [OF t1]
  show ?thesis
  proof (cases r)
    case (Inl e)
    with assms t1 f1 show ?thesis by (auto simp add: listen_body_def)
  next
    case (Inr token)
    show ?thesis
    proof (cases "connect_error a")
      case (Some e)
      with assms t1 f1 Inr show ?thesis by (auto simp add: listen_body_def)
    next
      case None
      define s2 where "s2 = sa\<lparr>mqtt_client := Some (Client (broker sa) (port sa) (app_key sa) token),
                               connected := True\<rparr>"
      obtain h2 r2 sb where t2: "mqtt_ensure_token s2 (subscribe_auth a) = (h2, r2, sb)"
        by (cases "mqtt_ensure_token s2 (subscribe_auth a)") auto
      note f2 = mqtt_ensure_token_fields [OF t2]
      have "snd (snd (subscribe s2 (subscribe_auth a) (broker_error a))) = sb"
        using t2 by (cases r2) (simp_all add: subscribe_def case_prod_beta)
      with assms t1 Inr None have "s1 = sb"
        by (auto simp add: listen_body_def Let_def s2_def case_prod_beta split: option.splits)
      with f1 f2 show ?thesis by (simp add: s2_def)
    qed
  qed
qed

lemma listen_fields:
  "listen s script = (tr, r, s') \<Longrightarrow>
     app_key s' = app_key s \<and> system_ids s' = system_ids s \<and> broker s' = broker s
     \<and> port s' = port s"
proof (induction script arbitrary: s tr r s')
  case Nil
  then show ?case by simp
next
  case (Cons a rest)
  obtain t x s1 where body: "listen_body s a = (t, x, s1)"
    by (cases "listen_body s a") auto
  note f = listen_body_fields [OF body]
  show ?case
  proof (cases x)
    case None
    with body Cons.prems f show ?thesis by simp
  next
    case (Some e)
    obtain t' r' s3 where
      next_pass: "listen (s1\<lparr>connected := False, mqtt_client := None\<rparr>) rest = (t', r', s3)"
      by (cases "listen (s1\<lparr>connected := False, mqtt_client := None\<rparr>) rest") auto
    from Cons.IH [OF next_pass] f
    have f3: "app_key s3 = app_key s \<and> system_ids s3 = system_ids s \<and> broker s3 = broker s
         \<and> port s3 = port s"
      by simp
    from body Some next_pass Cons.prems have "s' = s3 \<or> s' = s1\<lparr>connected := False, mqtt_client := None\<rparr>"
      by (auto simp add: Let_def split: if_splits)
    with f f3 show ?thesis by auto
  qed
qed

text \<open>A pass that is still receiving has the manager connected.\<close>

lemma listen_body_streaming:
  assumes "listen_body s a = (t, None, s1)"
  shows "connected s1"
proof -
  obtain h r sa where t1: "mqtt_ensure_token s (connect_auth a) = (h, r, sa)"
    by (cases "mqtt_ensure_token s (connect_auth a)") auto
  show ?thesis
  proof (cases r)
    case (Inl e)
    with assms t1 show ?thesis by (simp add: listen_body_def)
  next
    case (Inr token)
    show ?thesis
    proof (cases "connect_error a")
      case (Some e)
      with assms t1 Inr show ?thesis by (simp add: listen_body_def)
    next
      case None
      define s2 where "s2 = sa\<lparr>mqtt_client := Some (Client (broker sa) (port sa) (app_key sa) token),
                               connected := True\<rparr>"
      obtain h2 r2 sb where t2: "mqtt_ensure_token s2 (subscribe_auth a) = (h2, r2, sb)"
        by (cases "mqtt_ensure_token s2 (subscribe_auth a)") auto
      from mqtt_ensure_token_fields [OF t2] have "connected sb" by (simp add: s2_def)
      moreover have "snd (snd (subscribe s2 (subscribe_auth a) (broker_error a))) = sb"
        using t2 by (cases r2) (simp_all add: subscribe_def case_prod_beta)
      moreover from assms t1 Inr None
      have "s1 = snd (snd (subscribe s2 (subscribe_auth a) (broker_error a)))"
        by (auto simp add: listen_body_def Let_def s2_def case_prod_beta split: option.splits)
      ultimately show ?thesis by simp
    qed
  qed
qed

text \<open>
  When the passes scripted so far have all ended in a handler (the loop is back at its
  top, the manager disconnected), the run goes on with the passes that follow.
\<close>

lemma listen_append:
  "listen s pre = (tr, StillRunning, sn) \<Longrightarrow> pre = [] \<or> \<not> connected sn \<Longrightarrow>
     listen s (pre @ script) = (case listen sn script of (tr', r, s') \<Rightarrow> (tr @ tr', r, s'))"
proof (induction pre arbitrary: s tr)
  case Nil
  then show ?case by (simp add: case_prod_beta)
next
  case (Cons a pre)
  obtain t x s1 where body: "listen_body s a = (t, x, s1)"
    by (cases "listen_body s a") auto
  show ?case
  proof (cases x)
    case None
    with body Cons.prems(1) have "sn = s1" by simp
    with listen_body_streaming body None Cons.prems(2) show ?thesis by blast
  next
    case (Some e)
    obtain t' r' s3 where
      next_pass: "listen (s1\<lparr>connected := False, mqtt_client := None\<rparr>) pre = (t', r', s3)"
      by (cases "listen (s1\<lparr>connected := False, mqtt_client := None\<rparr>) pre") auto
    from body Some next_pass Cons.prems(1)
    have go: "e \<noteq> CancelledError" "\<not> sleep_cancelled a" "r' = StillRunning" "s3 = sn"
      and tr: "tr = t @ Sleep (if e = MqttError then 30 else 60) # t'"
      by (auto simp add: Let_def split: if_splits)
    have at_top: "pre = [] \<or> \<not> connected sn"
    proof (cases pre)
      case Nil
      with next_pass go show ?thesis by auto
    next
      case (Cons b pre')
      with Cons.prems(2) show ?thesis by simp
    qed
    from next_pass go have "listen (s1\<lparr>connected := False, mqtt_client := None\<rparr>) pre
        = (t', StillRunning, sn)"
      by simp
    from Cons.IH [OF this at_top]
    have "listen (s1\<lparr>connected := False, mqtt_client := None\<rparr>) (pre @ script)
        = (case listen sn script of (tr', r, s') \<Rightarrow> (t' @ tr', r, s'))" .
    with body Some go tr show ?thesis
      by (simp add: Let_def case_prod_beta)
  qed
qed

text \<open>After the events of its \<open>try\<close> block a pass adds nothing, or a sleep and what follows.\<close>

lemma listen_pass_events:
  assumes "listen_body s a = (t, x, s1)"
  shows "\<exists>tail. fst (listen s (a # rest)) = t @ tail \<and> (tail = [] \<or> (\<exists>n tl. tail = Sleep n # tl))"
proof (cases x)
  case None
  with assms show ?thesis by simp
next
  case (Some e)
  with assms show ?thesis
    by (auto simp add: Let_def case_prod_beta)
qed

text \<open>When one of the three subscription requests raises, no topic is subscribed.\<close>

lemma no_subscribe_after_failed_request:
  assumes "err 0 \<noteq> None \<or> err 1 \<noteq> None \<or> err 2 \<noteq> None"
  shows "Subscribe t \<notin> set (fst (run_calls err 0 (Publish t1 p1 # Publish t2 p2 # Publish t3 p3 # cs)))"
proof -
  have two: "Suc (Suc 0) = 2" by simp
  from assms show ?thesis
    by (auto simp add: case_prod_beta two split: option.splits)
qed

text \<open>
  Claim C2. On every pass of the listen loop, the first as well as the one that follows
  any number of lost connections, once the connection is opened and the token obtained,
  the manager makes its broker calls in this order: the three subscription requests
  (period, change, alarm), each with the access token and the list of system ids, then
  the three topics of every configured system id. It makes them up to the first call
  that raises and none after it: all of them when none raises, and no subscription to a
  topic when one of the three requests raises. In the whole run no topic is subscribed
  before the three requests were published on the connection opened last.
\<close>

theorem subscription_requests_first:
  "requests_first [] (fst (listen s script))
   \<and> (\<forall>tr sn h1 tok1 s1 h2 tok s3.
        listen s pre = (tr, StillRunning, sn) \<and> (pre = [] \<or> \<not> connected sn)
        \<and> mqtt_ensure_token sn (connect_auth a) = (h1, Inr tok1, s1) \<and> connect_error a = None
        \<and> mqtt_ensure_token
            (s1\<lparr>mqtt_client := Some (Client (broker s) (port s) (app_key s) tok1),
                connected := True\<rparr>) (subscribe_auth a) = (h2, Inr tok, s3) \<longrightarrow>
        (let planned =
           [Publish ''openapi/subscription/period''
              (JObj [(''accessToken'', tok),
                     (''systemIdList'', JList (map JStr (system_ids s)))]),
            Publish ''openapi/subscription/change''
              (JObj [(''accessToken'', tok),
                     (''systemIdList'', JList (map JStr (system_ids s)))]),
            Publish ''openapi/subscription/alarm''
              (JObj [(''accessToken'', tok),
                     (''systemIdList'', JList (map JStr (system_ids s)))])]
           @ concat (map (\<lambda>sid. [Subscribe (''openapi/period/'' @ app_key s @ ''/'' @ sid),
                                  Subscribe (''openapi/change/'' @ app_key s @ ''/'' @ sid),
                                  Subscribe (''openapi/alarm/'' @ app_key s @ ''/'' @ sid)])
                         (system_ids s))
         in \<exists>made tail.
              fst (listen s (pre @ a # rest))
                = tr @ h1 @ Connect (Client (broker s) (port s) (app_key s) tok1) # h2 @ made @ tail
              \<and> (tail = [] \<or> (\<exists>n tl. tail = Sleep n # tl))
              \<and> ((\<forall>k. broker_error a k = None) \<longrightarrow> made = planned)
              \<and> (\<forall>k e. broker_error a k = Some e \<and> (\<forall>j<k. broker_error a j = None)
                         \<and> k < length planned \<longrightarrow> made = take (Suc k) planned)
              \<and> (broker_error a 0 \<noteq> None \<or> broker_error a 1 \<noteq> None \<or> broker_error a 2 \<noteq> None
                   \<longrightarrow> (\<forall>t. Subscribe t \<notin> set made))))"
proof -
  have safety: "requests_first [] (fst (listen s script))"
    by (rule listen_first)
  have passes: "let planned =
           [Publish ''openapi/subscription/period''
              (JObj [(''accessToken'', tok),
                     (''systemIdList'', JList (map JStr (system_ids s)))]),
            Publish ''openapi/subscription/change''
              (JObj [(''accessToken'', tok),
                     (''systemIdList'', JList (map JStr (system_ids s)))]),
            Publish ''openapi/subscription/alarm''
              (JObj [(''accessToken'', tok),
                     (''systemIdList'', JList (map JStr (system_ids s)))])]
           @ concat (map (\<lambda>sid. [Subscribe (''openapi/period/'' @ app_key s @ ''/'' @ sid),
                                  Subscribe (''openapi/change/'' @ app_key s @ ''/'' @ sid),
                                  Subscribe (''openapi/alarm/'' @ app_key s @ ''/'' @ sid)])
                         (system_ids s))
         in \<exists>made tail.
              fst (listen s (pre @ a # rest))
                = tr @ h1 @ Connect (Client (broker s) (port s) (app_key s) tok1) # h2 @ made @ tail
              \<and> (tail = [] \<or> (\<exists>n tl. tail = Sleep n # tl))
              \<and> ((\<forall>k. broker_error a k = None) \<longrightarrow> made = planned)
              \<and> (\<forall>k e. broker_error a k = Some e \<and> (\<forall>j<k. broker_error a j = None)
                         \<and> k < length planned \<longrightarrow> made = take (Suc k) planned)
              \<and> (broker_error a 0 \<noteq> None \<or> broker_error a 1 \<noteq> None \<or> broker_error a 2 \<noteq> None
                   \<longrightarrow> (\<forall>t. Subscribe t \<notin> set made))"
    if top: "listen s pre = (tr, StillRunning, sn)" and at_top: "pre = [] \<or> \<not> connected sn"
      and t1: "mqtt_ensure_token sn (connect_auth a) = (h1, Inr tok1, s1)"
      and c: "connect_error a = None"
      and t2: "mqtt_ensure_token
            (s1\<lparr>mqtt_client := Some (Client (broker s) (port s) (app_key s) tok1),
                connected := True\<rparr>) (subscribe_auth a) = (h2, Inr tok, s3)"
    for tr sn h1 tok1 s1 h2 tok s3
  proof -
    let ?c = "Client (broker s) (port s) (app_key s) tok1"
    from listen_fields [OF top] mqtt_ensure_token_fields [OF t1]
    have same1: "broker s1 = broker s" "port s1 = port s" "app_key s1 = app_key s"
      "system_ids s1 = system_ids s"
      by simp_all
    from mqtt_ensure_token_fields [OF t2]
    have same3: "app_key s3 = app_key s" "system_ids s3 = system_ids s"
      by (simp_all add: same1)
    define planned where "planned = subscribe_calls s3 tok"
    have planned: "planned =
           [Publish ''openapi/subscription/period''
              (JObj [(''accessToken'', tok),
                     (''systemIdList'', JList (map JStr (system_ids s)))]),
            Publish ''openapi/subscription/change''
              (JObj [(''accessToken'', tok),
                     (''systemIdList'', JList (map JStr (system_ids s)))]),
            Publish ''openapi/subscription/alarm''
              (JObj [(''accessToken'', tok),
                     (''systemIdList'', JList (map JStr (system_ids s)))])]
           @ concat (map (\<lambda>sid. [Subscribe (''openapi/period/'' @ app_key s @ ''/'' @ sid),
                                  Subscribe (''openapi/change/'' @ app_key s @ ''/'' @ sid),
                                  Subscribe (''openapi/alarm/'' @ app_key s @ ''/'' @ sid)])
                         (system_ids s))"
      by (simp add: planned_def subscribe_calls_def sub_payload_def system_topics_def same3)
    obtain made r where run: "run_calls (broker_error a) 0 planned = (made, r)"
      by (cases "run_calls (broker_error a) 0 planned") auto
    have sub: "subscribe (s1\<lparr>mqtt_client := Some ?c, connected := True\<rparr>) (subscribe_auth a)
          (broker_error a) = (h2 @ made, r, s3)"
      using t2 run by (simp add: subscribe_def planned_def)
    have body: "listen_body sn a =
        (h1 @ Connect ?c # h2 @ made, (case r of None \<Rightarrow> stream_error a | Some e \<Rightarrow> Some e), s3)"
      using t1 c sub by (simp add: listen_body_def Let_def same1 split: option.splits)
    from listen_pass_events [OF body, of rest] obtain tail where
      tail: "fst (listen sn (a # rest)) = (h1 @ Connect ?c # h2 @ made) @ tail"
        "tail = [] \<or> (\<exists>n tl. tail = Sleep n # tl)"
      by blast
    from listen_append [OF top at_top, of "a # rest"] tail(1)
    have events: "fst (listen s (pre @ a # rest)) = tr @ h1 @ Connect ?c # h2 @ made @ tail"
      by (simp add: case_prod_beta)
    have all_ok: "made = planned" if "\<forall>k. broker_error a k = None"
      using run run_calls_all_ok [of "broker_error a" 0 planned] that by simp
    have first_raise: "made = take (Suc k) planned"
      if "broker_error a k = Some e" "\<forall>j<k. broker_error a j = None" "k < length planned" for k e
      using run run_calls_first_raise [of "broker_error a" 0 k e planned] that by simp
    have none_subscribed: "Subscribe t \<notin> set made"
      if "broker_error a 0 \<noteq> None \<or> broker_error a 1 \<noteq> None \<or> broker_error a 2 \<noteq> None" for t
    proof -
      have "Subscribe t \<notin> set (fst (run_calls (broker_error a) 0 planned))"
        unfolding planned append_Cons append_Nil
        by (rule no_subscribe_after_failed_request [OF that])
      with run show ?thesis by simp
    qed
    from events tail(2) all_ok first_raise none_subscribed
    have "\<exists>made tail.
              fst (listen s (pre @ a # rest))
                = tr @ h1 @ Connect ?c # h2 @ made @ tail
              \<and> (tail = [] \<or> (\<exists>n tl. tail = Sleep n # tl))
              \<and> ((\<forall>k. broker_error a k = None) \<longrightarrow> made = planned)
              \<and> (\<forall>k e. broker_error a k = Some e \<and> (\<forall>j<k. broker_error a j = None)
                         \<and> k < length planned \<longrightarrow> made = take (Suc k) planned)
              \<and> (broker_error a 0 \<noteq> None \<or> broker_error a 1 \<noteq> None \<or> broker_error a 2 \<noteq> None
                   \<longrightarrow> (\<forall>t. Subscribe t \<notin> set made))"
      by blast
    then show ?thesis
      unfolding Let_def planned .
  qed
  from safety passes show ?thesis by blast
qed

text \<open>
  The theorem on a reconnect of a manager whose token is valid. The first connection is
  lost while streaming (broker error, sleep of 30 seconds). On the second connection the
  requests and the topics are sent again, in this order; and when, on the second
  connection, the second request raises, the two requests are all that is sent before
  the next sleep.
\<close>

theorem subscription_requests_first_witness:
  "(\<exists>tail.
      fst (listen
        \<lparr> app_key = ''KEY'', system_ids = [''S1''], broker = ''mqtt-eu.sigencloud.com'',
          port = 8883, base_url = ''https://api-eu.sigencloud.com/'',
          nb_client = Some \<lparr> nb_base_url = ''https://api-eu.sigencloud.com/'',
                             nb_access_token = JStr ''T0'', nb_token_expiry = Some 1000,
                             has_app_key = True \<rparr>,
          mqtt_client = None, connected = False \<rparr>
        [\<lparr> connect_auth = \<lparr> clock = 10, reply = Inl ClientError, decoded = None, clock_after = 10 \<rparr>,
           connect_error = None,
           subscribe_auth = \<lparr> clock = 11, reply = Inl ClientError, decoded = None, clock_after = 11 \<rparr>,
           broker_error = (\<lambda>k. None), stream_error = Some MqttError, sleep_cancelled = False \<rparr>,
         \<lparr> connect_auth = \<lparr> clock = 50, reply = Inl ClientError, decoded = None, clock_after = 50 \<rparr>,
           connect_error = None,
           subscribe_auth = \<lparr> clock = 51, reply = Inl ClientError, decoded = None, clock_after = 51 \<rparr>,
           broker_error = (\<lambda>k. None), stream_error = None, sleep_cancelled = False \<rparr>])
      = [Connect (Client ''mqtt-eu.sigencloud.com'' 8883 ''KEY'' (JStr ''T0'')),
         Publish ''openapi/subscription/period''
           (JObj [(''accessToken'', JStr ''T0''), (''systemIdList'', JList [JStr ''S1''])]),
         Publish ''openapi/subscription/change''
           (JObj [(''accessToken'', JStr ''T0''), (''systemIdList'', JList [JStr ''S1''])]),
         Publish ''openapi/subscription/alarm''
           (JObj [(''accessToken'', JStr ''T0''), (''systemIdList'', JList [JStr ''S1''])]),
         Subscribe ''openapi/period/KEY/S1'', Subscribe ''openapi/change/KEY/S1'',
         Subscribe ''openapi/alarm/KEY/S1'',
         Sleep 30,
         Connect (Client ''mqtt-eu.sigencloud.com'' 8883 ''KEY'' (JStr ''T0'')),
         Publish ''openapi/subscription/period''
           (JObj [(''accessToken'', JStr ''T0''), (''systemIdList'', JList [JStr ''S1''])]),
         Publish ''openapi/subscription/change''
           (JObj [(''accessToken'', JStr ''T0''), (''systemIdList'', JList [JStr ''S1''])]),
         Publish ''openapi/subscription/alarm''
           (JObj [(''accessToken'', JStr ''T0''), (''systemIdList'', JList [JStr ''S1''])]),
         Subscribe ''openapi/period/KEY/S1'', Subscribe ''openapi/change/KEY/S1'',
         Subscribe ''openapi/alarm/KEY/S1''] @ tail)
   \<and> (\<exists>tail.
      fst (listen
        \<lparr> app_key = ''KEY'', system_ids = [''S1''], broker = ''mqtt-eu.sigencloud.com'',
          port = 8883, base_url = ''https://api-eu.sigencloud.com/'',
          nb_client = Some \<lparr> nb_base_url = ''https://api-eu.sigencloud.com/'',
                             nb_access_token = JStr ''T0'', nb_token_expiry = Some 1000,
                             has_app_key = True \<rparr>,
          mqtt_client = None, connected = False \<rparr>
        [\<lparr> connect_auth = \<lparr> clock = 10, reply = Inl ClientError, decoded = None, clock_after = 10 \<rparr>,
           connect_error = None,
           subscribe_auth = \<lparr> clock = 11, reply = Inl ClientError, decoded = None, clock_after = 11 \<rparr>,
           broker_error = (\<lambda>k. None), stream_error = Some MqttError, sleep_cancelled = False \<rparr>,
         \<lparr> connect_auth = \<lparr> clock = 50, reply = Inl ClientError, decoded = None, clock_after = 50 \<rparr>,
           connect_error = None,
           subscribe_auth = \<lparr> clock = 51, reply = Inl ClientError, decoded = None, clock_after = 51 \<rparr>,
           broker_error = (\<lambda>k. if k = 1 then Some MqttError else None), stream_error = None,
           sleep_cancelled = False \<rparr>])
      = [Connect (Client ''mqtt-eu.sigencloud.com'' 8883 ''KEY'' (JStr ''T0'')),
         Publish ''openapi/subscription/period''
           (JObj [(''accessToken'', JStr ''T0''), (''systemIdList'', JList [JStr ''S1''])]),
         Publish ''openapi/subscription/change''
           (JObj [(''accessToken'', JStr ''T0''), (''systemIdList'', JList [JStr ''S1''])]),
         Publish ''openapi/subscription/alarm''
           (JObj [(''accessToken'', JStr ''T0''), (''systemIdList'', JList [JStr ''S1''])]),
         Subscribe ''openapi/period/KEY/S1'', Subscribe ''openapi/change/KEY/S1'',
         Subscribe ''openapi/alarm/KEY/S1'',
         Sleep 30,
         Connect (Client ''mqtt-eu.sigencloud.com'' 8883 ''KEY'' (JStr ''T0'')),
         Publish ''openapi/subscription/period''
           (JObj [(''accessToken'', JStr ''T0''), (''systemIdList'', JList [JStr ''S1''])]),
         Publish ''openapi/subscription/change''
           (JObj [(''accessToken'', JStr ''T0''), (''systemIdList'', JList [JStr ''S1''])])] @ tail
      \<and> (tail = [] \<or> (\<exists>n tl. tail = Sleep n # tl)))"
  (is "(\<exists>tail. fst (listen ?s [?a1, ?a2]) = ?events2 @ tail)
       \<and> (\<exists>tail. fst (listen ?s [?a1, ?a3]) = ?events3 @ tail \<and> ?shape tail)")
proof -
  let ?c = "Client (broker ?s) (port ?s) (app_key ?s) (JStr ''T0'')"
  let ?p = "JObj [(''accessToken'', JStr ''T0''), (''systemIdList'', JList [JStr ''S1''])]"
  let ?first = "[Connect (Client ''mqtt-eu.sigencloud.com'' 8883 ''KEY'' (JStr ''T0'')),
        Publish ''openapi/subscription/period'' ?p, Publish ''openapi/subscription/change'' ?p,
        Publish ''openapi/subscription/alarm'' ?p,
        Subscribe ''openapi/period/KEY/S1'', Subscribe ''openapi/change/KEY/S1'',
        Subscribe ''openapi/alarm/KEY/S1'', Sleep 30]"
  have top: "listen ?s [?a1] = (?first, StillRunning, ?s)"
    by (simp add: listen_body_def subscribe_def subscribe_calls_def sub_payload_def
        system_topics_def mqtt_ensure_token_def nb_ensure_token_def Let_def)
  have at_top: "[?a1] = [] \<or> \<not> connected ?s" by simp
  have t1: "mqtt_ensure_token ?s (connect_auth ?a2) = ([], Inr (JStr ''T0''), ?s)"
    by (simp add: mqtt_ensure_token_def nb_ensure_token_def)
  have c: "connect_error ?a2 = None" by simp
  have t2: "mqtt_ensure_token (?s\<lparr>mqtt_client := Some ?c, connected := True\<rparr>) (subscribe_auth ?a2)
      = ([], Inr (JStr ''T0''), ?s\<lparr>mqtt_client := Some ?c, connected := True\<rparr>)"
    by (simp add: mqtt_ensure_token_def nb_ensure_token_def)
  have t1': "mqtt_ensure_token ?s (connect_auth ?a3) = ([], Inr (JStr ''T0''), ?s)"
    by (simp add: mqtt_ensure_token_def nb_ensure_token_def)
  have c': "connect_error ?a3 = None" by simp
  have t2': "mqtt_ensure_token (?s\<lparr>mqtt_client := Some ?c, connected := True\<rparr>) (subscribe_auth ?a3)
      = ([], Inr (JStr ''T0''), ?s\<lparr>mqtt_client := Some ?c, connected := True\<rparr>)"
    by (simp add: mqtt_ensure_token_def nb_ensure_token_def)
  note all_sent = subscription_requests_first
    [where s = ?s and script = "[]" and pre = "[?a1]" and a = ?a2 and rest = "[]",
     THEN conjunct2, rule_format, OF conjI [OF top conjI [OF at_top conjI [OF t1 conjI [OF c t2]]]],
     unfolded Let_def]
  note two_sent = subscription_requests_first
    [where s = ?s and script = "[]" and pre = "[?a1]" and a = ?a3 and rest = "[]",
     THEN conjunct2, rule_format, OF conjI [OF top conjI [OF at_top conjI [OF t1' conjI [OF c' t2']]]],
     unfolded Let_def]
  have second: "\<exists>tail. fst (listen ?s [?a1, ?a2]) = ?events2 @ tail"
    using all_sent by (auto simp del: listen.simps)
  have failed: "\<exists>tail. fst (listen ?s [?a1, ?a3]) = ?events3 @ tail \<and> ?shape tail"
    using two_sent by (auto simp del: listen.simps)
  from second failed show ?thesis by (rule conjI)
qed

end
